theory Spec2Isabelle
  imports Main
begin

section \<open>Errors and effects\<close>

text \<open>
  The three scripts (\<^verbatim>\<open>createTags.py\<close>, \<^verbatim>\<open>custom_metadata/cm_generator.py\<close>,
  \<^verbatim>\<open>options/options_generator.py\<close>) are straight-line Python around an SDK client.
  A Python exception is a value of type \<open>error\<close>; a computation that may raise returns
  \<open>error + 'a\<close> with \<open>Inl\<close> for the exception.
\<close>

datatype error =
    NotFoundError
  | KeyError string
  | TypeError
  | AttributeError
  | ValueError string
  | UnboundLocalError string
  | FileError string
  | RemoteError string

section \<open>Data model of the custom-metadata script\<close>

text \<open>The values of the \<^verbatim>\<open>mapping\<close> table: \<^verbatim>\<open>AtlanCustomAttributePrimitiveType\<close>.\<close>

datatype primitive_type =
  STRING | URL | OPTIONS | USERS | GROUPS | BOOLEAN | INTEGER | SQL | DATE | DECIMAL

text \<open>
  An attribute definition (\<^verbatim>\<open>AttributeDef\<close>), with the fields the script reads, writes or
  passes to the constructor.
\<close>

record attribute_def =
  display_name :: string
  attribute_type :: primitive_type
  options_name :: "string option"
  multi_valued :: "bool option"
  applicable_connections :: "string set"
  applicable_glossaries :: "string set"
  applicable_domains :: "string set"
  applicable_asset_types :: "string set"
  applicable_glossary_types :: "string set"
  applicable_domain_types :: "string set"
  applicable_other_asset_types :: "string set"

text \<open>
  One value of an item's \<^verbatim>\<open>"attributes"\<close> object. Every field is read with
  \<^verbatim>\<open>.get\<close>, so an absent key and a JSON \<^verbatim>\<open>null\<close> are both \<open>None\<close>.
\<close>

record attr_config =
  cfg_type :: "string option"
  cfg_options :: "string option"
  cfg_multivalue :: "bool option"
  cfg_applicable_connections :: "string list option"
  cfg_applicable_asset_types :: "string list option"
  cfg_applicable_glossaries :: "string list option"
  cfg_applicable_glossary_types :: "string list option"
  cfg_applicable_other_asset_types :: "string list option"
  cfg_applicable_domains :: "string list option"
  cfg_applicable_domain_types :: "string list option"

text \<open>
  A Python \<^verbatim>\<open>dict\<close> with string keys, in insertion order: an association list.
  A dict holds each key once (\<open>dict_wf\<close>).
\<close>

type_synonym 'v dict = "(string \<times> 'v) list"

definition dict_wf :: "'v dict \<Rightarrow> bool" where
  "dict_wf d = distinct (map fst d)"

definition dict_keys :: "'v dict \<Rightarrow> string list" where
  "dict_keys d = map fst d"

definition dict_get :: "'v dict \<Rightarrow> string \<Rightarrow> 'v option" where
  "dict_get d k = map_of d k"

definition dict_pop :: "string \<Rightarrow> 'v dict \<Rightarrow> 'v dict" where
  "dict_pop k d = filter (\<lambda>p. fst p \<noteq> k) d"

section \<open>Static tables of \<^verbatim>\<open>cm_generator.py\<close>\<close>

definition complete_type_list :: "string set" where
  "complete_type_list =
    {''ADLSAccount'', ''ADLSContainer'', ''ADLSObject'', ''AnaplanPage'',
     ''AnaplanList'', ''AnaplanLineItem'', ''AnaplanWorkspace'', ''AnaplanModule'',
     ''AnaplanModel'', ''AnaplanApp'', ''AnaplanDimension'', ''AnaplanView'',
     ''APIObject'', ''APIQuery'', ''APIField'', ''APIPath'', ''APISpec'',
     ''Application'', ''ApplicationField'', ''Collection'', ''Query'', ''BIProcess'',
     ''Badge'', ''Column'', ''ColumnProcess'', ''Connection'', ''CustomEntity'',
     ''DataStudioAsset'', ''DataverseAttribute'', ''DataverseEntity'', ''Database'',
     ''DbtColumnProcess'', ''DbtMetric'', ''DbtModel'', ''DbtModelColumn'',
     ''DbtProcess'', ''DbtSource'', ''Folder'', ''GCSBucket'', ''GCSObject'',
     ''Insight'', ''KafkaConsumerGroup'', ''KafkaTopic'', ''Process'', ''Link'',
     ''LookerDashboard'', ''LookerExplore'', ''LookerField'', ''LookerFolder'',
     ''LookerLook'', ''LookerModel'', ''LookerProject'', ''LookerQuery'', ''LookerTile'',
     ''LookerView'', ''MCIncident'', ''MCMonitor'', ''MaterialisedView'',
     ''MetabaseCollection'', ''MetabaseDashboard'', ''MetabaseQuestion'', ''ModeChart'',
     ''ModeCollection'', ''ModeQuery'', ''ModeReport'', ''ModeWorkspace'',
     ''PowerBIColumn'', ''PowerBIDashboard'', ''PowerBIDataflow'', ''PowerBIDataset'',
     ''PowerBIDatasource'', ''PowerBIMeasure'', ''PowerBIPage'', ''PowerBIReport'',
     ''PowerBITable'', ''PowerBITile'', ''PowerBIWorkspace'', ''PresetChart'',
     ''PresetDashboard'', ''PresetDataset'', ''PresetWorkspace'', ''Procedure'',
     ''QlikApp'', ''QlikChart'', ''QlikDataset'', ''QlikSheet'', ''QlikSpace'',
     ''QlikStream'', ''QuickSightAnalysis'', ''QuickSightAnalysisVisual'',
     ''QuickSightDashboard'', ''QuickSightDashboardVisual'', ''QuickSightDataset'',
     ''QuickSightDatasetField'', ''QuickSightFolder'', ''Readme'', ''ReadmeTemplate'',
     ''RedashDashboard'', ''RedashQuery'', ''RedashVisualization'', ''S3Bucket'',
     ''S3Object'', ''SalesforceDashboard'', ''SalesforceField'', ''SalesforceObject'',
     ''SalesforceOrganization'', ''SalesforceReport'', ''Schema'', ''SigmaDataElement'',
     ''SigmaDataElementField'', ''SigmaDataset'', ''SigmaDatasetColumn'', ''SigmaPage'',
     ''SigmaWorkbook'', ''SnowflakePipe'', ''SnowflakeStream'', ''SnowflakeTag'',
     ''SupersetChart'', ''SupersetDashboard'', ''SupersetDataset'', ''Table'',
     ''TablePartition'', ''TableauCalculatedField'', ''TableauDashboard'',
     ''TableauDatasource'', ''TableauDatasourceField'', ''TableauFlow'',
     ''TableauMetric'', ''TableauProject'', ''TableauSite'', ''TableauWorkbook'',
     ''TableauWorksheet'', ''ThoughtspotAnswer'', ''ThoughtspotDashlet'',
     ''ThoughtspotLiveboard'', ''View''}"

definition all_glossary_types :: "string set" where
  "all_glossary_types = {''AtlasGlossary'', ''AtlasGlossaryCategory'', ''AtlasGlossaryTerm''}"

definition all_domains :: "string set" where
  "all_domains = {''*/super''}"

definition all_domain_types :: "string set" where
  "all_domain_types = {''DataDomain'', ''DataProduct''}"

definition all_other_types :: "string set" where
  "all_other_types = {''File''}"

definition mapping :: "string \<Rightarrow> primitive_type option" where
  "mapping = map_of
    [(''Text'', STRING), (''URL'', URL), (''Enum'', OPTIONS), (''Users'', USERS),
     (''Groups'', GROUPS), (''Boolean'', BOOLEAN), (''Int'', INTEGER), (''SQL'', SQL),
     (''Date'', DATE), (''Decimal'', DECIMAL)]"

text \<open>\<^verbatim>\<open>mapping.get(attr.get("type"))\<close>: an absent type is looked up as \<^verbatim>\<open>None\<close>, which is no key.\<close>

definition mapping_get :: "string option \<Rightarrow> primitive_type option" where
  "mapping_get t = (case t of None \<Rightarrow> None | Some n \<Rightarrow> mapping n)"

section \<open>Scope resolution\<close>

text \<open>
  The answer of \<^verbatim>\<open>client.asset.search\<close> for the assets of one type: the qualified name of
  each result (which may be missing), or the exception the call raised.
\<close>

type_synonym search = "string \<Rightarrow> error + string option list"

text \<open>\<^verbatim>\<open>_get_all_qualified_names\<close>: \<^verbatim>\<open>set(result.qualified_name or "" for result in results)\<close>.\<close>

definition get_all_qualified_names :: "search \<Rightarrow> string \<Rightarrow> error + string set" where
  "get_all_qualified_names search asset_type =
     (case search asset_type of
        Inl e \<Rightarrow> Inl e
      | Inr results \<Rightarrow>
          Inr (set (map (\<lambda>q. case q of None \<Rightarrow> [] | Some n \<Rightarrow> n) results)))"

text \<open>Python's \<^verbatim>\<open>not app\<close> for a value that is \<^verbatim>\<open>None\<close> or a list.\<close>

definition py_not :: "'a list option \<Rightarrow> bool" where
  "py_not app = (app = None \<or> app = Some [])"

text \<open>
  Modelled from the spec: \<^verbatim>\<open>AttributeDef.create\<close> belongs to the SDK, which is not part
  of the repository. The spec's AttributeSpec is \<open>{display_name, primitive_type,
  options_reference, multi_valued, applicable_scopes}\<close>, a new AttributeSpec is constructed from
  the desired entry, and an unknown type string fails fast with a descriptive error: the
  constructor stores its arguments as given and rejects an absent attribute type.
\<close>

definition AttributeDef_create ::
  "string \<Rightarrow> primitive_type option \<Rightarrow> string option \<Rightarrow> bool option \<Rightarrow>
   string set \<Rightarrow> string set \<Rightarrow> string set \<Rightarrow> string set \<Rightarrow> string set \<Rightarrow> string set \<Rightarrow>
   string set \<Rightarrow> error + attribute_def" where
  "AttributeDef_create dn ty opts mv conns gloss doms ats gts dts oats =
     (case ty of
        None \<Rightarrow> Inl (ValueError ''attribute_type is required'')
      | Some t \<Rightarrow>
          Inr \<lparr>display_name = dn, attribute_type = t, options_name = opts, multi_valued = mv,
               applicable_connections = conns, applicable_glossaries = gloss,
               applicable_domains = doms, applicable_asset_types = ats,
               applicable_glossary_types = gts, applicable_domain_types = dts,
               applicable_other_asset_types = oats\<rparr>)"

text \<open>
  Lines 322 to 337: the scope fields of an existing attribute are overwritten from the
  desired entry of the same display name. Each right-hand side is
  \<^verbatim>\<open>set() if not app else UNIVERSE if app[0] == "all" else set(app)\<close>; the two live lookups
  come first and may raise.
\<close>

definition overwrite_scopes :: "search \<Rightarrow> attribute_def \<Rightarrow> attr_config \<Rightarrow> error + attribute_def" where
  "overwrite_scopes search existing_def attr =
    (let app_conn = cfg_applicable_connections attr;
         app_asset_types = cfg_applicable_asset_types attr;
         app_gloss = cfg_applicable_glossaries attr;
         app_gloss_types = cfg_applicable_glossary_types attr;
         app_other_asset_types = cfg_applicable_other_asset_types attr;
         app_domains = cfg_applicable_domains attr;
         app_domain_types = cfg_applicable_domain_types attr
     in case (if py_not app_conn then Inr {}
              else if hd (the app_conn) = ''all''
                   then get_all_qualified_names search ''Connection''
                   else Inr (set (the app_conn))) of
          Inl e \<Rightarrow> Inl e
        | Inr conns \<Rightarrow>
           (case (if py_not app_gloss then Inr {}
                  else if hd (the app_gloss) = ''all''
                       then get_all_qualified_names search ''AtlasGlossary''
                       else Inr (set (the app_gloss))) of
              Inl e \<Rightarrow> Inl e
            | Inr gloss \<Rightarrow>
                Inr (existing_def
                  \<lparr>applicable_connections := conns,
                   applicable_glossaries := gloss,
                   applicable_domains :=
                     (if py_not app_domains then {}
                      else if hd (the app_domains) = ''all'' then all_domains
                      else set (the app_domains)),
                   applicable_asset_types :=
                     (if py_not app_asset_types then {}
                      else if hd (the app_asset_types) = ''all'' then complete_type_list
                      else set (the app_asset_types)),
                   applicable_glossary_types :=
                     (if py_not app_gloss_types then {}
                      else if hd (the app_gloss_types) = ''all'' then all_glossary_types
                      else set (the app_gloss_types)),
                   applicable_domain_types :=
                     (if py_not app_domain_types then {}
                      else if hd (the app_domain_types) = ''all'' then all_domain_types
                      else set (the app_domain_types)),
                   applicable_other_asset_types :=
                     (if py_not app_other_asset_types then {}
                      else if hd (the app_other_asset_types) = ''all'' then all_other_types
                      else set (the app_other_asset_types))\<rparr>)))"

text \<open>
  Lines 342 to 363 (update path) and 372 to 393 (create path), which are the same text: the
  arguments are evaluated left to right, then \<^verbatim>\<open>AttributeDef.create\<close> is called.
\<close>

definition new_attribute :: "search \<Rightarrow> string \<Rightarrow> attr_config \<Rightarrow> error + attribute_def" where
  "new_attribute search attr_key attr =
    (let app_conn = cfg_applicable_connections attr;
         app_asset_types = cfg_applicable_asset_types attr;
         app_gloss = cfg_applicable_glossaries attr;
         app_gloss_types = cfg_applicable_glossary_types attr;
         app_other_asset_types = cfg_applicable_other_asset_types attr;
         app_domains = cfg_applicable_domains attr;
         app_domain_types = cfg_applicable_domain_types attr
     in case (if py_not app_conn then Inr {}
              else if hd (the app_conn) = ''all''
                   then get_all_qualified_names search ''Connection''
                   else Inr (set (the app_conn))) of
          Inl e \<Rightarrow> Inl e
        | Inr conns \<Rightarrow>
           (case (if py_not app_gloss then Inr {}
                  else if hd (the app_gloss) = ''all''
                       then get_all_qualified_names search ''AtlasGlossary''
                       else Inr (set (the app_gloss))) of
              Inl e \<Rightarrow> Inl e
            | Inr gloss \<Rightarrow>
                AttributeDef_create attr_key (mapping_get (cfg_type attr)) (cfg_options attr)
                  (cfg_multivalue attr) conns gloss
                  (if py_not app_domains then {}
                   else if hd (the app_domains) = ''all'' then all_domains
                   else set (the app_domains))
                  (if py_not app_asset_types then {}
                   else if hd (the app_asset_types) = ''all'' then complete_type_list
                   else set (the app_asset_types))
                  (if py_not app_gloss_types then {}
                   else if hd (the app_gloss_types) = ''all'' then all_glossary_types
                   else set (the app_gloss_types))
                  (if py_not app_domain_types then {}
                   else if hd (the app_domain_types) = ''all'' then all_domain_types
                   else set (the app_domain_types))
                  (if py_not app_other_asset_types then {}
                   else if hd (the app_other_asset_types) = ''all'' then all_other_types
                   else set (the app_other_asset_types))))"

section \<open>The attribute reconciler (update path, lines 318 to 364)\<close>

text \<open>
  The first loop runs over the existing attributes with the state \<open>(attributes, defs)\<close>:
  \<^verbatim>\<open>item.get("attributes")\<close>, from which matched names are popped, and the list built so
  far. An existing attribute whose display name is not a key is not appended.
\<close>

fun update_loop ::
  "search \<Rightarrow> attribute_def list \<Rightarrow> attr_config dict \<Rightarrow> attribute_def list \<Rightarrow>
   error + (attribute_def list \<times> attr_config dict)" where
  "update_loop search [] attributes defs = Inr (defs, attributes)"
| "update_loop search (existing_def # rest) attributes defs =
     (case dict_get attributes (display_name existing_def) of
        None \<Rightarrow> update_loop search rest attributes defs
      | Some attr \<Rightarrow>
         (case overwrite_scopes search existing_def attr of
            Inl e \<Rightarrow> Inl e
          | Inr d \<Rightarrow>
              update_loop search rest (dict_pop (display_name existing_def) attributes)
                (defs @ [d])))"

text \<open>The second loop: \<^verbatim>\<open>for attr_key, attr in item.get("attributes").items()\<close>.\<close>

fun create_loop ::
  "search \<Rightarrow> attr_config dict \<Rightarrow> attribute_def list \<Rightarrow> error + attribute_def list" where
  "create_loop search [] defs = Inr defs"
| "create_loop search ((attr_key, attr) # rest) defs =
     (case new_attribute search attr_key attr of
        Inl e \<Rightarrow> Inl e
      | Inr d \<Rightarrow> create_loop search rest (defs @ [d]))"

definition reconcile ::
  "search \<Rightarrow> attribute_def list \<Rightarrow> attr_config dict \<Rightarrow> error + attribute_def list" where
  "reconcile search existing_defs attributes =
     (case update_loop search existing_defs attributes [] of
        Inl e \<Rightarrow> Inl e
      | Inr (defs, remaining) \<Rightarrow> create_loop search remaining defs)"

section \<open>Definitions sent to the catalog\<close>

text \<open>
  Modelled from the spec: \<^verbatim>\<open>CustomMetadataDef\<close>, \<^verbatim>\<open>EnumDef\<close> and \<^verbatim>\<open>AtlanTagDef\<close> and
  their \<^verbatim>\<open>create\<close>/\<^verbatim>\<open>update\<close> constructors belong to the SDK, which is not part of the
  repository. Following the spec's data model and glossary (a custom metadata definition is a
  name with an ordered attribute list, an enumeration a name with its values, a tag a name with
  a colour, emoji or icon), each is a record and each constructor stores its arguments.
\<close>

record custom_metadata_def =
  cm_display_name :: string
  attribute_defs :: "attribute_def list"
  cm_options :: "(string \<times> string) option"

definition CustomMetadataDef_create :: "string \<Rightarrow> custom_metadata_def" where
  "CustomMetadataDef_create dn = \<lparr>cm_display_name = dn, attribute_defs = [], cm_options = None\<rparr>"

record enum_def =
  enum_name :: "string option"
  enum_values :: "string list option"
  replace_existing :: bool

definition EnumDef_create :: "string option \<Rightarrow> string list option \<Rightarrow> enum_def" where
  "EnumDef_create n vs = \<lparr>enum_name = n, enum_values = vs, replace_existing = False\<rparr>"

definition EnumDef_update :: "string option \<Rightarrow> string list option \<Rightarrow> bool \<Rightarrow> enum_def" where
  "EnumDef_update n vs r = \<lparr>enum_name = n, enum_values = vs, replace_existing = r\<rparr>"

record tag_def =
  tag_def_name :: string
  tag_def_color :: "string option"
  tag_def_emoji :: "string option"
  tag_def_icon :: "string option"
  tag_def_description :: "string option"

definition AtlanTagDef_create ::
  "string \<Rightarrow> string option \<Rightarrow> string option \<Rightarrow> string option \<Rightarrow> tag_def" where
  "AtlanTagDef_create n c e i =
     \<lparr>tag_def_name = n, tag_def_color = c, tag_def_emoji = e, tag_def_icon = i,
      tag_def_description = None\<rparr>"

datatype type_def = CustomMetadata custom_metadata_def | Enum enum_def | Tag tag_def

section \<open>The SDK client and the trace of a run\<close>

text \<open>
  The client is a parameter: what the catalog answers in a state \<open>'s\<close> of the remote side.
  A read answers with a value or an exception; \<^verbatim>\<open>client.typedef.create\<close> and
  \<^verbatim>\<open>client.typedef.update\<close> answer with the exception raised (\<open>None\<close> when the call
  returns) and the next state. \<open>tag_colors\<close> and \<open>icons\<close> are the member names of
  \<^verbatim>\<open>AtlanTagColor\<close> and the values of \<^verbatim>\<open>AtlanIcon\<close>, two enumerations of the SDK.
\<close>

record 's sdk =
  get_custom_metadata_def :: "'s \<Rightarrow> string option \<Rightarrow> error + custom_metadata_def"
  get_by_name :: "'s \<Rightarrow> string option \<Rightarrow> error + enum_def"
  asset_search :: "'s \<Rightarrow> search"
  typedef_create :: "'s \<Rightarrow> type_def \<Rightarrow> error option \<times> 's"
  typedef_update :: "'s \<Rightarrow> type_def \<Rightarrow> error option \<times> 's"
  tag_colors :: "string set"
  icons :: "string set"

text \<open>
  The trace of a run: the files opened, the clients constructed, the existence checks, the
  create and update calls with their answers, and the messages printed per item (the messages
  of the file loaders are not traced).
\<close>

datatype message =
    Updating string
  | Creating string
  | Script_finished
  | Created_tag string string
  | Error_creating_tag string error
  | Successfully_created nat
  | Created_line string
  | An_error_occurred error

datatype event =
    Print message
  | File_open string
  | Client_init string string
  | Get_def "string option"
  | Typedef_create type_def "error option"
  | Typedef_update type_def "error option"

text \<open>How a script ends: normally, by \<^verbatim>\<open>sys.exit\<close>, or by an uncaught exception.\<close>

datatype outcome = Finished | Exit nat | Raised error

definition is_write :: "event \<Rightarrow> bool" where
  "is_write ev = (case ev of Typedef_create d r \<Rightarrow> True | Typedef_update d r \<Rightarrow> True | _ \<Rightarrow> False)"

section \<open>\<^verbatim>\<open>cm_generator.py\<close>: one iteration of the main loop\<close>

record item =
  item_name :: "string option"
  item_attributes :: "attr_config dict option"
  item_icon :: "string option"
  item_emoji :: "string option"

text \<open>
  Lines 317 to 365. \<^verbatim>\<open>item.get("attributes")\<close> is \<^verbatim>\<open>None\<close> when the key is absent, and
  \<^verbatim>\<open>.keys()\<close> or \<^verbatim>\<open>.items()\<close> on it raises.
\<close>

definition update_path ::
  "'s sdk \<Rightarrow> 's \<Rightarrow> custom_metadata_def \<Rightarrow> item \<Rightarrow> event list \<times> error option \<times> 's" where
  "update_path client s existing item =
     (case item_attributes item of
        None \<Rightarrow> ([Print (Updating (cm_display_name existing))], Some AttributeError, s)
      | Some attributes \<Rightarrow>
         (case reconcile (asset_search client s) (attribute_defs existing) attributes of
            Inl e \<Rightarrow> ([Print (Updating (cm_display_name existing))], Some e, s)
          | Inr defs \<Rightarrow>
             (let existing' = existing\<lparr>attribute_defs := defs\<rparr>;
                  (response, s') = typedef_update client s (CustomMetadata existing')
              in ([Print (Updating (cm_display_name existing)),
                   Typedef_update (CustomMetadata existing') response], response, s'))))"

text \<open>
  Lines 367 to 405. \<^verbatim>\<open>"Creating " + item.get("name")\<close> raises when the name is absent.
  The attributes are built before the \<^verbatim>\<open>"icon"\<close> and \<^verbatim>\<open>"emoji"\<close> tests, which
  \<^verbatim>\<open>continue\<close> with the next item.
\<close>

definition create_path :: "'s sdk \<Rightarrow> 's \<Rightarrow> item \<Rightarrow> event list \<times> error option \<times> 's" where
  "create_path client s item =
     (case item_name item of
        None \<Rightarrow> ([], Some TypeError, s)
      | Some name \<Rightarrow>
         (case item_attributes item of
            None \<Rightarrow> ([Print (Creating name)], Some AttributeError, s)
          | Some attributes \<Rightarrow>
             (case create_loop (asset_search client s) attributes [] of
                Inl e \<Rightarrow> ([Print (Creating name)], Some e, s)
              | Inr defs \<Rightarrow>
                 (let cm_def = (CustomMetadataDef_create name)\<lparr>attribute_defs := defs\<rparr>
                  in if item_icon item \<noteq> None then ([Print (Creating name)], None, s)
                     else if item_emoji item \<noteq> None then ([Print (Creating name)], None, s)
                     else
                       (let cm_def' = cm_def\<lparr>cm_options := Some (''BAG_SIMPLE'', ''YELLOW'')\<rparr>;
                            (response, s') = typedef_create client s (CustomMetadata cm_def')
                        in ([Print (Creating name),
                             Typedef_create (CustomMetadata cm_def') response], response, s'))))))"

text \<open>
  Lines 311 to 316: only \<^verbatim>\<open>NotFoundError\<close> is caught; a definition that is returned is
  an object, hence true in \<^verbatim>\<open>if existing\<close>.
\<close>

definition process_item :: "'s sdk \<Rightarrow> 's \<Rightarrow> item \<Rightarrow> event list \<times> error option \<times> 's" where
  "process_item client s item =
     (case get_custom_metadata_def client s (item_name item) of
        Inl err \<Rightarrow>
          if err = NotFoundError
          then (case create_path client s item of
                  (evs, r, s') \<Rightarrow> (Get_def (item_name item) # evs, r, s'))
          else ([Get_def (item_name item)], Some err, s)
      | Inr existing \<Rightarrow>
          (case update_path client s existing item of
             (evs, r, s') \<Rightarrow> (Get_def (item_name item) # evs, r, s')))"

text \<open>\<^verbatim>\<open>for item in loaded_data\<close>: an exception leaves the loop and the script.\<close>

fun main_loop :: "'s sdk \<Rightarrow> 's \<Rightarrow> item list \<Rightarrow> event list \<times> error option \<times> 's" where
  "main_loop client s [] = ([], None, s)"
| "main_loop client s (item # rest) =
     (case process_item client s item of
        (evs, Some e, s') \<Rightarrow> (evs, Some e, s')
      | (evs, None, s') \<Rightarrow>
         (case main_loop client s' rest of (evs', r, s'') \<Rightarrow> (evs @ evs', r, s'')))"

section \<open>Loading the input file\<close>

text \<open>What is at a path: nothing, a directory, or a file that is unreadable, not JSON, or JSON.\<close>

datatype 'a file_at = Missing | Directory | Unreadable | Invalid_json | Json 'a

text \<open>\<^verbatim>\<open>load_json_from_file\<close>: every failure is \<^verbatim>\<open>sys.exit(1)\<close>.\<close>

definition load_json_from_file :: "(string \<Rightarrow> 'a file_at) \<Rightarrow> string \<Rightarrow> event list \<times> (nat + 'a)" where
  "load_json_from_file fs file_path =
     (case fs file_path of
        Missing \<Rightarrow> ([], Inl 1)
      | Directory \<Rightarrow> ([], Inl 1)
      | Unreadable \<Rightarrow> ([File_open file_path], Inl 1)
      | Invalid_json \<Rightarrow> ([File_open file_path], Inl 1)
      | Json data \<Rightarrow> ([File_open file_path], Inr data))"

section \<open>\<^verbatim>\<open>cm_generator.py\<close>: the script\<close>

text \<open>
  \<^verbatim>\<open>main\<close> loads the file, then constructs the client with two empty strings and runs the
  loop. The process environment \<open>env\<close> is never read.
\<close>

definition cm_generator_main ::
  "(string \<rightharpoonup> string) \<Rightarrow> 's sdk \<Rightarrow> (string \<Rightarrow> item list file_at) \<Rightarrow> 's \<Rightarrow> string \<Rightarrow>
   event list \<times> outcome \<times> 's" where
  "cm_generator_main env client fs s json_file_path =
     (case load_json_from_file fs json_file_path of
        (evs, Inl code) \<Rightarrow> (evs, Exit code, s)
      | (evs, Inr loaded_data) \<Rightarrow>
         (case main_loop client s loaded_data of
            (evs', Some e, s') \<Rightarrow> (evs @ Client_init [] [] # evs', Raised e, s')
          | (evs', None, s') \<Rightarrow>
              (evs @ Client_init [] [] # evs' @ [Print Script_finished], Finished, s')))"

section \<open>\<^verbatim>\<open>options_generator.py\<close>\<close>

record enum_item =
  enum_item_name :: "string option"
  enum_item_values :: "string list option"

text \<open>Lines 110 to 132; \<^verbatim>\<open>"Updating " + num_def.name\<close> and \<^verbatim>\<open>"Creating " + item.get("name")\<close>
  raise on \<^verbatim>\<open>None\<close>.\<close>

definition process_enum_item ::
  "'s sdk \<Rightarrow> 's \<Rightarrow> enum_item \<Rightarrow> event list \<times> error option \<times> 's" where
  "process_enum_item client s item =
     (case (case get_by_name client s (enum_item_name item) of
              Inl err \<Rightarrow> if err = NotFoundError then Inr None else Inl err
            | Inr d \<Rightarrow> Inr (Some d)) of
        Inl err \<Rightarrow> ([Get_def (enum_item_name item)], Some err, s)
      | Inr (Some num_def) \<Rightarrow>
         (case enum_name num_def of
            None \<Rightarrow> ([Get_def (enum_item_name item)], Some TypeError, s)
          | Some n \<Rightarrow>
             (let enum_def = EnumDef_update (enum_item_name item) (enum_item_values item) True;
                  (response, s') = typedef_update client s (Enum enum_def)
              in ([Get_def (enum_item_name item), Print (Updating n),
                   Typedef_update (Enum enum_def) response], response, s')))
      | Inr None \<Rightarrow>
         (case enum_item_name item of
            None \<Rightarrow> ([Get_def (enum_item_name item)], Some TypeError, s)
          | Some n \<Rightarrow>
             (let enum_def = EnumDef_create (enum_item_name item) (enum_item_values item);
                  (response, s') = typedef_create client s (Enum enum_def)
              in ([Get_def (enum_item_name item), Print (Creating n),
                   Typedef_create (Enum enum_def) response], response, s'))))"

fun enum_loop :: "'s sdk \<Rightarrow> 's \<Rightarrow> enum_item list \<Rightarrow> event list \<times> error option \<times> 's" where
  "enum_loop client s [] = ([], None, s)"
| "enum_loop client s (item # rest) =
     (case process_enum_item client s item of
        (evs, Some e, s') \<Rightarrow> (evs, Some e, s')
      | (evs, None, s') \<Rightarrow>
         (case enum_loop client s' rest of (evs', r, s'') \<Rightarrow> (evs @ evs', r, s'')))"

definition options_generator_main ::
  "(string \<rightharpoonup> string) \<Rightarrow> 's sdk \<Rightarrow> (string \<Rightarrow> enum_item list file_at) \<Rightarrow> 's \<Rightarrow> string \<Rightarrow>
   event list \<times> outcome \<times> 's" where
  "options_generator_main env client fs s json_file_path =
     (case load_json_from_file fs json_file_path of
        (evs, Inl code) \<Rightarrow> (evs, Exit code, s)
      | (evs, Inr loaded_data) \<Rightarrow>
         (case enum_loop client s loaded_data of
            (evs', Some e, s') \<Rightarrow> (evs @ Client_init [] [] # evs', Raised e, s')
          | (evs', None, s') \<Rightarrow>
              (evs @ Client_init [] [] # evs' @ [Print Script_finished], Finished, s')))"

section \<open>\<^verbatim>\<open>createTags.py\<close>\<close>

text \<open>One entry of the YAML \<^verbatim>\<open>tags\<close> list; every key may be absent.\<close>

record tag_config =
  tag_type :: "string option"
  tag_name :: "string option"
  tag_color :: "string option"
  tag_emoji :: "string option"
  tag_icon_name :: "string option"
  tag_description :: "string option"

text \<open>
  Lines 100 to 116, inside the \<^verbatim>\<open>try\<close>: the value of the variable \<^verbatim>\<open>tag_def\<close> afterwards,
  \<open>None\<close> when no branch assigned it. \<^verbatim>\<open>tag_config[k]\<close> raises \<^verbatim>\<open>KeyError\<close> on an
  absent key, \<^verbatim>\<open>AtlanTagColor[c]\<close> on a name that is no colour, and \<^verbatim>\<open>AtlanIcon(i)\<close> raises
  \<^verbatim>\<open>ValueError\<close> on a value that is no icon.
\<close>

definition build_tag_def ::
  "'s sdk \<Rightarrow> string \<Rightarrow> string \<Rightarrow> tag_config \<Rightarrow> error + tag_def option" where
  "build_tag_def client ty name cfg =
     (if ty = ''color'' then
        (case tag_color cfg of
           None \<Rightarrow> Inl (KeyError ''color'')
         | Some c \<Rightarrow>
             if c \<in> tag_colors client
             then Inr (Some (AtlanTagDef_create name (Some c) None None))
             else Inl (KeyError c))
      else if ty = ''emoji'' then
        (case tag_color cfg of
           None \<Rightarrow> Inl (KeyError ''color'')
         | Some c \<Rightarrow>
             if c \<in> tag_colors client
             then (case tag_emoji cfg of
                     None \<Rightarrow> Inl (KeyError ''emoji'')
                   | Some e \<Rightarrow> Inr (Some (AtlanTagDef_create name (Some c) (Some e) None)))
             else Inl (KeyError c))
      else if ty = ''icon'' then
        (case tag_icon_name cfg of
           None \<Rightarrow> Inl (KeyError ''icon_name'')
         | Some i \<Rightarrow>
             if i \<in> icons client
             then (case tag_description cfg of
                     None \<Rightarrow> Inl (KeyError ''description'')
                   | Some d \<Rightarrow>
                       Inr (Some ((AtlanTagDef_create name None None (Some i))
                                   \<lparr>tag_def_description := Some d\<rparr>)))
             else Inl (ValueError i))
      else Inr None)"

text \<open>
  \<^verbatim>\<open>create_tag_from_config\<close>. The two reads before the \<^verbatim>\<open>try\<close> raise to the caller;
  everything raised inside it is printed and turned into the result \<^verbatim>\<open>None\<close>. Reading the
  unassigned \<^verbatim>\<open>tag_def\<close> raises before \<^verbatim>\<open>client.typedef.create\<close> is called.
\<close>

definition create_tag_from_config ::
  "'s sdk \<Rightarrow> 's \<Rightarrow> tag_config \<Rightarrow> event list \<times> (error + string option) \<times> 's" where
  "create_tag_from_config client s cfg =
     (case tag_type cfg of
        None \<Rightarrow> ([], Inl (KeyError ''type''), s)
      | Some ty \<Rightarrow>
         (case tag_name cfg of
            None \<Rightarrow> ([], Inl (KeyError ''name''), s)
          | Some name \<Rightarrow>
             (case build_tag_def client ty name cfg of
                Inl e \<Rightarrow> ([Print (Error_creating_tag name e)], Inr None, s)
              | Inr None \<Rightarrow>
                  ([Print (Error_creating_tag name (UnboundLocalError ''tag_def''))], Inr None, s)
              | Inr (Some td) \<Rightarrow>
                 (case typedef_create client s (Tag td) of
                    (Some e, s') \<Rightarrow>
                      ([Typedef_create (Tag td) (Some e), Print (Error_creating_tag name e)],
                       Inr None, s')
                  | (None, s') \<Rightarrow>
                      ([Typedef_create (Tag td) None, Print (Created_tag ty name)],
                       Inr (Some name), s')))))"

text \<open>
  Lines 137 to 141: the loop of \<^verbatim>\<open>main\<close> with its list \<^verbatim>\<open>created_tags\<close>;
  \<^verbatim>\<open>if tag_name\<close> is false for \<^verbatim>\<open>None\<close> and for the empty string.
\<close>

fun tags_loop ::
  "'s sdk \<Rightarrow> 's \<Rightarrow> tag_config list \<Rightarrow> string list \<Rightarrow> event list \<times> (error + string list) \<times> 's" where
  "tags_loop client s [] created_tags = ([], Inr created_tags, s)"
| "tags_loop client s (cfg # rest) created_tags =
     (case create_tag_from_config client s cfg of
        (evs, Inl e, s') \<Rightarrow> (evs, Inl e, s')
      | (evs, Inr name, s') \<Rightarrow>
         (case tags_loop client s' rest
                 (if py_not name then created_tags else created_tags @ [the name]) of
            (evs', r, s'') \<Rightarrow> (evs @ evs', r, s'')))"

text \<open>
  \<^verbatim>\<open>load_tag_config\<close>: opening or parsing the file may raise (\<open>Inl\<close>), and a document
  without the key \<^verbatim>\<open>tags\<close> (\<open>Inr None\<close>) raises \<^verbatim>\<open>ValueError\<close>.
\<close>

definition load_tag_config ::
  "(string \<Rightarrow> error + tag_config list option) \<Rightarrow> string \<Rightarrow> event list \<times> (error + tag_config list)" where
  "load_tag_config fs yaml_file =
     (case fs yaml_file of
        Inl e \<Rightarrow> ([File_open yaml_file], Inl e)
      | Inr None \<Rightarrow>
          ([File_open yaml_file], Inl (ValueError ''YAML file must contain a 'tags' list''))
      | Inr (Some tags) \<Rightarrow> ([File_open yaml_file], Inr tags))"

text \<open>\<^verbatim>\<open>main\<close>: any exception of the \<^verbatim>\<open>try\<close> block is printed, and \<^verbatim>\<open>main\<close> returns.\<close>

definition createTags_main ::
  "string \<Rightarrow> string \<Rightarrow> 's sdk \<Rightarrow> (string \<Rightarrow> error + tag_config list option) \<Rightarrow> 's \<Rightarrow>
   event list \<times> outcome \<times> 's" where
  "createTags_main tenant api_key client fs s =
     (case load_tag_config fs ''tag_template.yaml'' of
        (evs, Inl e) \<Rightarrow>
          (Client_init tenant api_key # evs @ [Print (An_error_occurred e)], Finished, s)
      | (evs, Inr tag_configs) \<Rightarrow>
         (case tags_loop client s tag_configs [] of
            (evs', Inl e, s') \<Rightarrow>
              (Client_init tenant api_key # evs @ evs' @ [Print (An_error_occurred e)],
               Finished, s')
          | (evs', Inr created_tags, s') \<Rightarrow>
              (Client_init tenant api_key # evs @ evs'
                 @ Print (Successfully_created (length created_tags))
                 # map (\<lambda>tag. Print (Created_line tag)) created_tags,
               Finished, s')))"

text \<open>
  The module: lines 56 to 60 run on import, before anything else;
  \<^verbatim>\<open>not ATLAN_API_KEY\<close> holds for an unset and for an empty variable.
\<close>

definition createTags_script ::
  "(string \<rightharpoonup> string) \<Rightarrow> 's sdk \<Rightarrow> (string \<Rightarrow> error + tag_config list option) \<Rightarrow> 's \<Rightarrow>
   event list \<times> outcome \<times> 's" where
  "createTags_script env client fs s =
     (let ATLAN_API_KEY = env ''ATLAN_API_KEY'';
          ATLAN_TENANT = env ''ATLAN_TENANT''
      in if py_not ATLAN_API_KEY \<or> py_not ATLAN_TENANT
         then ([], Raised (ValueError
                 ''Please set ATLAN_API_KEY and ATLAN_TENANT environment variables''), s)
         else createTags_main (the ATLAN_TENANT) (the ATLAN_API_KEY) client fs s)"

section \<open>The scope rule and the predicates of the claims\<close>

text \<open>
  The rule that the scope expressions of the code follow, for a category with a static
  universe: nothing for an absent or empty input, the universe when the first element is
  \<^verbatim>\<open>"all"\<close>, the listed identifiers otherwise.
\<close>

definition scope_rule :: "string list option \<Rightarrow> string set \<Rightarrow> string set" where
  "scope_rule app universe =
     (case app of
        None \<Rightarrow> {}
      | Some [] \<Rightarrow> {}
      | Some (x # rest) \<Rightarrow> if x = ''all'' then universe else set (x # rest))"

text \<open>
  The same rule for connections and glossaries, whose universe is the answer of a live
  lookup: the lookup is made, and may raise, only when the first element is \<^verbatim>\<open>"all"\<close>.
\<close>

definition live_scope_rule ::
  "string list option \<Rightarrow> (error + string set) \<Rightarrow> error + string set" where
  "live_scope_rule app lookup =
     (case app of
        None \<Rightarrow> Inr {}
      | Some [] \<Rightarrow> Inr {}
      | Some (x # rest) \<Rightarrow> if x = ''all'' then lookup else Inr (set (x # rest)))"

text \<open>
  What the first loop of the update path has done when it returns \<open>ds\<close> and the remaining
  desired entries: the entries of every existing display name are consumed, \<open>ds\<close> holds one
  attribute for each existing display name that is a desired key, and each is an existing
  attribute overwritten from its desired entry.
\<close>

definition loop_post ::
  "search \<Rightarrow> attribute_def list \<Rightarrow> attr_config dict \<Rightarrow> attribute_def list \<Rightarrow> attr_config dict \<Rightarrow> bool" where
  "loop_post search es attrs ds remaining \<longleftrightarrow>
     remaining = filter (\<lambda>p. fst p \<notin> display_name ` set es) attrs
     \<and> set (map display_name ds) = display_name ` set es \<inter> set (dict_keys attrs)
     \<and> distinct (map display_name ds)
     \<and> (\<forall>d\<in>set ds. \<exists>e\<in>set es. \<exists>a. dict_get attrs (display_name e) = Some a
           \<and> overwrite_scopes search e a = Inr d)"


text \<open>
  The claim on the reconciled names as the spec words it: one attribute per distinct display
  name of existing and desired together.
\<close>

definition one_per_name_of_union ::
  "attribute_def list \<Rightarrow> attr_config dict \<Rightarrow> attribute_def list \<Rightarrow> bool" where
  "one_per_name_of_union es attrs R \<longleftrightarrow>
     distinct (map display_name R)
     \<and> set (map display_name R) = display_name ` set es \<union> set (dict_keys attrs)"

text \<open>
  The scope rule as the spec words it: the universe only for the one-element list
  \<^verbatim>\<open>["all"]\<close>, the literal set for every other non-empty list.
\<close>

definition stated_scope_rule :: "string list option \<Rightarrow> string set \<Rightarrow> string set" where
  "stated_scope_rule app universe =
     (if app = None \<or> app = Some [] then {}
      else if app = Some [''all''] then universe
      else set (the app))"

section \<open>Example inputs\<close>

definition example_search :: search where
  "example_search asset_type =
     (if asset_type = ''Connection'' then Inr [Some ''default/snowflake/1'', None]
      else if asset_type = ''AtlasGlossary'' then Inr [Some ''glossary1'']
      else Inr [])"

definition plain_config :: attr_config where
  "plain_config =
     \<lparr>cfg_type = Some ''Text'', cfg_options = None, cfg_multivalue = None,
      cfg_applicable_connections = None, cfg_applicable_asset_types = None,
      cfg_applicable_glossaries = None, cfg_applicable_glossary_types = None,
      cfg_applicable_other_asset_types = None, cfg_applicable_domains = None,
      cfg_applicable_domain_types = None\<rparr>"

definition on_asset_types :: "string list \<Rightarrow> attr_config" where
  "on_asset_types ts = plain_config\<lparr>cfg_applicable_asset_types := Some ts\<rparr>"

definition text_attribute :: "string \<Rightarrow> string set \<Rightarrow> attribute_def" where
  "text_attribute n ts =
     \<lparr>display_name = n, attribute_type = STRING, options_name = None, multi_valued = None,
      applicable_connections = {}, applicable_glossaries = {}, applicable_domains = {},
      applicable_asset_types = ts, applicable_glossary_types = {},
      applicable_domain_types = {}, applicable_other_asset_types = {}\<rparr>"

text \<open>A desired entry on every connection and on two asset types, and the attribute built from it.\<close>

definition all_connections_config :: attr_config where
  "all_connections_config =
     plain_config\<lparr>cfg_applicable_connections := Some [''all''],
                  cfg_applicable_asset_types := Some [''Table'', ''View'']\<rparr>"

definition all_connections_attribute :: attribute_def where
  "all_connections_attribute =
     (text_attribute ''Owner'' {''Table'', ''View''})
       \<lparr>applicable_connections := {''default/snowflake/1'', []}\<rparr>"

text \<open>The spec's example: existing \<open>{A, B}\<close>, desired \<open>{B, C}\<close>.\<close>

definition example_existing :: "attribute_def list" where
  "example_existing = [text_attribute ''A'' {''Table''}, text_attribute ''B'' {''View''}]"

definition example_desired :: "attr_config dict" where
  "example_desired = [(''B'', on_asset_types [''Column'']), (''C'', on_asset_types [''Schema''])]"

definition example_reconciled :: "attribute_def list" where
  "example_reconciled = [text_attribute ''B'' {''Column''}, text_attribute ''C'' {''Schema''}]"

text \<open>An existing definition that holds the display name \<open>B\<close> twice.\<close>

definition duplicate_existing :: "attribute_def list" where
  "duplicate_existing =
     [text_attribute ''B'' {''View''}, text_attribute ''A'' {''Table''},
      text_attribute ''B'' {''Table''}]"

text \<open>
  A small catalog as the remote side: its state is the list of definitions it holds. A
  lookup finds a definition by name, \<^verbatim>\<open>create\<close> refuses a name that exists, and
  \<^verbatim>\<open>update\<close> replaces the definition of the same name.
\<close>

fun type_def_name :: "type_def \<Rightarrow> string option" where
  "type_def_name (CustomMetadata d) = Some (cm_display_name d)"
| "type_def_name (Enum d) = enum_name d"
| "type_def_name (Tag d) = Some (tag_def_name d)"

fun find_custom_metadata :: "string \<Rightarrow> type_def list \<Rightarrow> custom_metadata_def option" where
  "find_custom_metadata n [] = None"
| "find_custom_metadata n (CustomMetadata d # ts) =
     (if cm_display_name d = n then Some d else find_custom_metadata n ts)"
| "find_custom_metadata n (t # ts) = find_custom_metadata n ts"

fun find_enum :: "string \<Rightarrow> type_def list \<Rightarrow> enum_def option" where
  "find_enum n [] = None"
| "find_enum n (Enum d # ts) = (if enum_name d = Some n then Some d else find_enum n ts)"
| "find_enum n (t # ts) = find_enum n ts"

definition catalog_sdk :: "type_def list sdk" where
  "catalog_sdk =
     \<lparr>get_custom_metadata_def =
        (\<lambda>s n. case n of
                 None \<Rightarrow> Inl (ValueError ''name is required'')
               | Some m \<Rightarrow>
                  (case find_custom_metadata m s of None \<Rightarrow> Inl NotFoundError | Some d \<Rightarrow> Inr d)),
      get_by_name =
        (\<lambda>s n. case n of
                 None \<Rightarrow> Inl (ValueError ''name is required'')
               | Some m \<Rightarrow> (case find_enum m s of None \<Rightarrow> Inl NotFoundError | Some d \<Rightarrow> Inr d)),
      asset_search = (\<lambda>s. example_search),
      typedef_create =
        (\<lambda>s t. if type_def_name t \<in> set (map type_def_name s)
                then (Some (RemoteError ''already exists''), s)
                else (None, s @ [t])),
      typedef_update =
        (\<lambda>s t. (None, map (\<lambda>u. if type_def_name u = type_def_name t then t else u) s)),
      tag_colors = {''GREEN'', ''YELLOW'', ''RED'', ''GRAY''},
      icons = {''PhEcho''}\<rparr>"

definition example_definition :: custom_metadata_def where
  "example_definition =
     \<lparr>cm_display_name = ''Governance'', attribute_defs = example_existing, cm_options = None\<rparr>"

definition duplicate_definition :: custom_metadata_def where
  "duplicate_definition = example_definition\<lparr>attribute_defs := duplicate_existing\<rparr>"

definition example_item :: item where
  "example_item =
     \<lparr>item_name = Some ''Governance'', item_attributes = Some example_desired,
      item_icon = None, item_emoji = None\<rparr>"

definition updated_definition :: custom_metadata_def where
  "updated_definition = example_definition\<lparr>attribute_defs := example_reconciled\<rparr>"

text \<open>Which events are create calls and which are update calls.\<close>

definition is_create :: "event \<Rightarrow> bool" where
  "is_create ev = (case ev of Typedef_create d r \<Rightarrow> True | _ \<Rightarrow> False)"

definition is_update :: "event \<Rightarrow> bool" where
  "is_update ev = (case ev of Typedef_update d r \<Rightarrow> True | _ \<Rightarrow> False)"

text \<open>Items for the examples: with an icon, with an unknown type, and a catalog that denies access.\<close>

definition icon_item :: item where
  "icon_item = example_item\<lparr>item_icon := Some ''PhBag''\<rparr>"

definition unknown_type_desired :: "attr_config dict" where
  "unknown_type_desired = [(''B'', (on_asset_types [''Column''])\<lparr>cfg_type := Some ''unknown''\<rparr>)]"

definition unknown_type_item :: item where
  "unknown_type_item = example_item\<lparr>item_attributes := Some unknown_type_desired\<rparr>"

definition denying_sdk :: "type_def list sdk" where
  "denying_sdk =
     catalog_sdk\<lparr>get_custom_metadata_def := \<lambda>s n. Inl (RemoteError ''permission denied'')\<rparr>"

definition example_enum_item :: enum_item where
  "example_enum_item = \<lparr>enum_item_name = Some ''Severity'', enum_item_values = Some [''low'', ''high'']\<rparr>"

definition unknown_type_new_item :: item where
  "unknown_type_new_item =
     \<lparr>item_name = Some ''Quality'',
      item_attributes = Some [(''Score'', plain_config\<lparr>cfg_type := Some ''unknown''\<rparr>)],
      item_icon = None, item_emoji = None\<rparr>"

text \<open>
  In a trace of the tag script: the names of the tags whose create call returned, and the
  messages that report the outcome of one entry.
\<close>

fun created_names :: "event list \<Rightarrow> string list" where
  "created_names [] = []"
| "created_names (Typedef_create (Tag td) None # evs) = tag_def_name td # created_names evs"
| "created_names (ev # evs) = created_names evs"

definition is_outcome_message :: "event \<Rightarrow> bool" where
  "is_outcome_message ev =
     (case ev of
        Print (Created_tag ty n) \<Rightarrow> True
      | Print (Error_creating_tag n e) \<Rightarrow> True
      | _ \<Rightarrow> False)"

text \<open>What one well-formed tag entry (it has a type and a name) does.\<close>

definition entry_post ::
  "'s sdk \<Rightarrow> 's \<Rightarrow> string \<Rightarrow> event list \<Rightarrow> string option \<Rightarrow> bool" where
  "entry_post client s n evs r \<longleftrightarrow>
     length (filter is_outcome_message evs) = 1
     \<and> (\<forall>td e. Typedef_create (Tag td) (Some e) \<in> set evs
            \<longrightarrow> Print (Error_creating_tag (tag_def_name td) e) \<in> set evs)
     \<and> (case r of None \<Rightarrow> created_names evs = [] | Some m \<Rightarrow> m = n \<and> created_names evs = [n])"

text \<open>Tag entries for the examples, and the YAML file that holds three of them.\<close>

definition color_tag :: tag_config where
  "color_tag =
     \<lparr>tag_type = Some ''color'', tag_name = Some ''Critical'', tag_color = Some ''RED'',
      tag_emoji = None, tag_icon_name = None, tag_description = Some ''Critical data''\<rparr>"

definition emoji_tag :: tag_config where
  "emoji_tag =
     \<lparr>tag_type = Some ''emoji'', tag_name = Some ''PII'', tag_color = Some ''YELLOW'',
      tag_emoji = Some ''lock'', tag_icon_name = None, tag_description = Some ''PII data''\<rparr>"

definition banner_tag :: tag_config where
  "banner_tag = color_tag\<lparr>tag_type := Some ''banner'', tag_name := Some ''Legacy''\<rparr>"

definition nameless_tag :: tag_config where
  "nameless_tag = banner_tag\<lparr>tag_name := None\<rparr>"

definition nameless_yaml :: "string \<Rightarrow> error + tag_config list option" where
  "nameless_yaml path = Inr (Some [nameless_tag, color_tag])"

definition critical_def :: tag_def where
  "critical_def = AtlanTagDef_create ''Critical'' (Some ''RED'') None None"

definition pii_def :: tag_def where
  "pii_def = AtlanTagDef_create ''PII'' (Some ''YELLOW'') (Some ''lock'') None"

definition example_yaml :: "string \<Rightarrow> error + tag_config list option" where
  "example_yaml path =
     (if path = ''tag_template.yaml'' then Inr (Some [color_tag, color_tag, emoji_tag])
      else Inl (FileError path))"

text \<open>A catalog whose create call fails, a second item, and the JSON file that holds two items.\<close>

definition failing_create_sdk :: "type_def list sdk" where
  "failing_create_sdk =
     catalog_sdk\<lparr>typedef_create := \<lambda>s t. (Some (RemoteError ''server error''), s)\<rparr>"

definition second_item :: item where
  "second_item = example_item\<lparr>item_name := Some ''Quality''\<rparr>"

definition example_json :: "string \<Rightarrow> item list file_at" where
  "example_json path = (if path = ''metadata.json'' then Json [example_item, second_item] else Missing)"

definition governance_definition :: custom_metadata_def where
  "governance_definition =
     \<lparr>cm_display_name = ''Governance'', attribute_defs = example_reconciled,
      cm_options = Some (''BAG_SIMPLE'', ''YELLOW'')\<rparr>"

definition single_json :: "string \<Rightarrow> item list file_at" where
  "single_json path = (if path = ''metadata.json'' then Json [example_item] else Missing)"

definition example_env :: "string \<rightharpoonup> string" where
  "example_env = [''ATLAN_API_KEY'' \<mapsto> ''key'', ''ATLAN_TENANT'' \<mapsto> ''https://tenant'']"

definition key_only_env :: "string \<rightharpoonup> string" where
  "key_only_env = [''ATLAN_API_KEY'' \<mapsto> ''key'']"

section \<open>Properties of the attribute reconciler\<close>

lemma static_if_eq:
  "(if py_not app then {} else if hd (the app) = ''all'' then U else set (the app))
     = scope_rule app U"
  by (cases app; cases "the app") (simp_all add: py_not_def scope_rule_def)

lemma live_if_eq:
  "(if py_not app then Inr {} else if hd (the app) = ''all'' then L else Inr (set (the app)))
     = live_scope_rule app L"
  by (cases app; cases "the app") (simp_all add: py_not_def live_scope_rule_def)

lemma overwrite_scopes_unfold:
  "overwrite_scopes search e a =
     (case live_scope_rule (cfg_applicable_connections a)
             (get_all_qualified_names search ''Connection'') of
        Inl err \<Rightarrow> Inl err
      | Inr conns \<Rightarrow>
         (case live_scope_rule (cfg_applicable_glossaries a)
                 (get_all_qualified_names search ''AtlasGlossary'') of
            Inl err \<Rightarrow> Inl err
          | Inr gloss \<Rightarrow>
              Inr (e\<lparr>applicable_connections := conns,
                     applicable_glossaries := gloss,
                     applicable_domains := scope_rule (cfg_applicable_domains a) all_domains,
                     applicable_asset_types :=
                       scope_rule (cfg_applicable_asset_types a) complete_type_list,
                     applicable_glossary_types :=
                       scope_rule (cfg_applicable_glossary_types a) all_glossary_types,
                     applicable_domain_types :=
                       scope_rule (cfg_applicable_domain_types a) all_domain_types,
                     applicable_other_asset_types :=
                       scope_rule (cfg_applicable_other_asset_types a) all_other_types\<rparr>)))"
  unfolding overwrite_scopes_def Let_def static_if_eq live_if_eq ..

lemma new_attribute_unfold:
  "new_attribute search k a =
     (case live_scope_rule (cfg_applicable_connections a)
             (get_all_qualified_names search ''Connection'') of
        Inl err \<Rightarrow> Inl err
      | Inr conns \<Rightarrow>
         (case live_scope_rule (cfg_applicable_glossaries a)
                 (get_all_qualified_names search ''AtlasGlossary'') of
            Inl err \<Rightarrow> Inl err
          | Inr gloss \<Rightarrow>
              AttributeDef_create k (mapping_get (cfg_type a)) (cfg_options a)
                (cfg_multivalue a) conns gloss
                (scope_rule (cfg_applicable_domains a) all_domains)
                (scope_rule (cfg_applicable_asset_types a) complete_type_list)
                (scope_rule (cfg_applicable_glossary_types a) all_glossary_types)
                (scope_rule (cfg_applicable_domain_types a) all_domain_types)
                (scope_rule (cfg_applicable_other_asset_types a) all_other_types)))"
  unfolding new_attribute_def Let_def static_if_eq live_if_eq ..

lemma overwrite_scopes_kept:
  assumes "overwrite_scopes search e a = Inr d"
  shows "display_name d = display_name e" "attribute_type d = attribute_type e"
    "options_name d = options_name e" "multi_valued d = multi_valued e"
  using assms
  by (auto simp: overwrite_scopes_unfold split: sum.splits)

lemma new_attribute_name:
  "new_attribute search k a = Inr d \<Longrightarrow> display_name d = k"
  by (auto simp: new_attribute_unfold AttributeDef_create_def split: sum.splits option.splits)

lemma overwrite_scopes_idem:
  "overwrite_scopes search e a = Inr d \<Longrightarrow> overwrite_scopes search d a = Inr d"
  by (auto simp: overwrite_scopes_unfold split: sum.splits)

lemma new_then_overwrite:
  "new_attribute search k a = Inr d \<Longrightarrow> overwrite_scopes search d a = Inr d"
  by (auto simp: new_attribute_unfold overwrite_scopes_unfold AttributeDef_create_def split: sum.splits option.splits)


lemma create_loop_acc:
  "create_loop search attrs defs =
     (case create_loop search attrs [] of Inl e \<Rightarrow> Inl e | Inr ds \<Rightarrow> Inr (defs @ ds))"
proof (induction attrs arbitrary: defs)
  case Nil
  show ?case by simp
next
  case (Cons p attrs)
  obtain k a where p: "p = (k, a)" by (cases p)
  show ?case
  proof (cases "new_attribute search k a")
    case (Inl e)
    then show ?thesis by (simp add: p)
  next
    case (Inr d)
    then show ?thesis
      using Cons.IH [of "defs @ [d]"] Cons.IH [of "[d]"]
      by (simp add: p split: sum.splits)
  qed
qed

lemma update_loop_acc:
  "update_loop search es attrs defs =
     (case update_loop search es attrs [] of
        Inl e \<Rightarrow> Inl e
      | Inr (ds, remaining) \<Rightarrow> Inr (defs @ ds, remaining))"
proof (induction es arbitrary: attrs defs)
  case Nil
  show ?case by simp
next
  case (Cons e es)
  show ?case
  proof (cases "dict_get attrs (display_name e)")
    case None
    then show ?thesis using Cons.IH [of attrs defs] by simp
  next
    case (Some a)
    show ?thesis
    proof (cases "overwrite_scopes search e a")
      case (Inl err)
      then show ?thesis by (simp add: Some)
    next
      case (Inr d)
      then show ?thesis
        using Cons.IH [of "dict_pop (display_name e) attrs" "defs @ [d]"]
          Cons.IH [of "dict_pop (display_name e) attrs" "[d]"]
        by (simp add: Some split: sum.splits prod.splits)
    qed
  qed
qed

lemma dict_get_None_iff: "dict_get d k = None \<longleftrightarrow> k \<notin> set (dict_keys d)"
  by (simp add: dict_get_def dict_keys_def map_of_eq_None_iff)

lemma dict_get_pop_same: "dict_get (dict_pop k d) k = None"
  by (auto simp: dict_get_None_iff dict_keys_def dict_pop_def)

lemma dict_get_pop_other: "k' \<noteq> k \<Longrightarrow> dict_get (dict_pop k d) k' = dict_get d k'"
  unfolding dict_get_def dict_pop_def by (induction d) auto

lemma dict_keys_pop: "set (dict_keys (dict_pop k d)) = set (dict_keys d) - {k}"
  by (auto simp: dict_keys_def dict_pop_def)

lemma dict_pop_filter:
  "filter (\<lambda>p. fst p \<notin> A) (dict_pop k d) = filter (\<lambda>p. fst p \<notin> insert k A) d"
  unfolding dict_pop_def by (induction d) auto


lemma update_loop_result:
  "update_loop search es attrs [] = Inr (ds, remaining) \<Longrightarrow> loop_post search es attrs ds remaining"
proof (induction es arbitrary: attrs ds)
  case Nil
  then show ?case by (simp add: loop_post_def)
next
  case (Cons e es)
  let ?k = "display_name e"
  show ?case
  proof (cases "dict_get attrs ?k")
    case None
    then have "update_loop search es attrs [] = Inr (ds, remaining)"
      using Cons.prems by simp
    then have post: "loop_post search es attrs ds remaining" by (rule Cons.IH)
    have nk: "?k \<notin> set (dict_keys attrs)" using None by (simp add: dict_get_None_iff)
    then have "filter (\<lambda>p. fst p \<notin> display_name ` set (e # es)) attrs
        = filter (\<lambda>p. fst p \<notin> display_name ` set es) attrs"
      by (intro filter_cong) (force simp: dict_keys_def)+
    with post nk show ?thesis
      unfolding loop_post_def by auto
  next
    case (Some a)
    then obtain d where d: "overwrite_scopes search e a = Inr d"
      using Cons.prems by (cases "overwrite_scopes search e a") simp_all
    have run: "update_loop search es (dict_pop ?k attrs) [d] = Inr (ds, remaining)"
      using Cons.prems Some d by simp
    then obtain ds' where ds': "update_loop search es (dict_pop ?k attrs) [] = Inr (ds', remaining)"
      and ds: "ds = d # ds'"
      by (subst (asm) update_loop_acc) (auto split: sum.splits)
    have post: "loop_post search es (dict_pop ?k attrs) ds' remaining"
      using ds' by (rule Cons.IH)
    have k: "?k \<in> set (dict_keys attrs)"
      using Some dict_get_None_iff [of attrs ?k] by auto
    have dn: "display_name d = ?k" using d by (rule overwrite_scopes_kept)
    have 1: "remaining = filter (\<lambda>p. fst p \<notin> display_name ` set (e # es)) attrs"
      using post by (simp add: loop_post_def dict_pop_filter)
    have names: "set (map display_name ds') = display_name ` set es \<inter> (set (dict_keys attrs) - {?k})"
      using post by (simp add: loop_post_def dict_keys_pop)
    have 2: "set (map display_name ds) = display_name ` set (e # es) \<inter> set (dict_keys attrs)"
      using names k dn by (auto simp: ds)
    have 3: "distinct (map display_name ds)"
      using post names dn by (auto simp: ds loop_post_def)
    have 4: "\<exists>e'\<in>set (e # es). \<exists>a'. dict_get attrs (display_name e') = Some a'
           \<and> overwrite_scopes search e' a' = Inr d'" if "d' \<in> set ds" for d'
    proof (cases "d' = d")
      case True
      then show ?thesis using Some d by auto
    next
      case False
      then have "d' \<in> set ds'" using that ds by simp
      then obtain e' a' where e': "e' \<in> set es"
        and g: "dict_get (dict_pop ?k attrs) (display_name e') = Some a'"
        and o: "overwrite_scopes search e' a' = Inr d'"
        using post unfolding loop_post_def by blast
      have "display_name e' \<noteq> ?k" using g dict_get_pop_same [of ?k attrs] by auto
      then have "dict_get attrs (display_name e') = Some a'"
        using g by (simp add: dict_get_pop_other)
      then show ?thesis using e' o by auto
    qed
    show ?thesis unfolding loop_post_def using 1 2 3 4 by blast
  qed
qed

lemma create_loop_result:
  "create_loop search attrs [] = Inr ns \<Longrightarrow>
     list_all2 (\<lambda>n p. new_attribute search (fst p) (snd p) = Inr n) ns attrs"
proof (induction attrs arbitrary: ns)
  case Nil
  then show ?case by simp
next
  case (Cons p attrs)
  obtain k a where p: "p = (k, a)" by (cases p)
  from Cons.prems obtain d where d: "new_attribute search k a = Inr d"
    by (cases "new_attribute search k a") (simp_all add: p)
  then have "create_loop search attrs [d] = Inr ns" using Cons.prems by (simp add: p)
  then obtain ns' where ns': "create_loop search attrs [] = Inr ns'" and ns: "ns = d # ns'"
    by (subst (asm) create_loop_acc) (auto split: sum.splits)
  show ?case using Cons.IH [OF ns'] d by (simp add: ns p)
qed

lemma create_loop_names:
  "create_loop search attrs [] = Inr ns \<Longrightarrow> map display_name ns = dict_keys attrs"
proof -
  assume "create_loop search attrs [] = Inr ns"
  then have "list_all2 (\<lambda>n p. new_attribute search (fst p) (snd p) = Inr n) ns attrs"
    by (rule create_loop_result)
  then have "list_all2 (\<lambda>n p. display_name n = fst p) ns attrs"
    by (rule list_all2_mono) (simp add: new_attribute_name)
  then show ?thesis
    unfolding dict_keys_def by (induction rule: list_all2_induct) auto
qed


lemma dict_get_SomeI: "dict_wf d \<Longrightarrow> (k, a) \<in> set d \<Longrightarrow> dict_get d k = Some a"
  by (simp add: dict_wf_def dict_get_def)

lemma list_all2_setD1:
  "list_all2 P xs ys \<Longrightarrow> x \<in> set xs \<Longrightarrow> \<exists>y\<in>set ys. P x y"
  by (induction rule: list_all2_induct) auto

lemma reconcile_split:
  assumes "reconcile search es attrs = Inr R"
  obtains ds ns where "R = ds @ ns"
    and "update_loop search es attrs [] =
           Inr (ds, filter (\<lambda>p. fst p \<notin> display_name ` set es) attrs)"
    and "create_loop search (filter (\<lambda>p. fst p \<notin> display_name ` set es) attrs) [] = Inr ns"
proof -
  from assms obtain ds remaining where u: "update_loop search es attrs [] = Inr (ds, remaining)"
    and c: "create_loop search remaining ds = Inr R"
    by (auto simp: reconcile_def split: sum.splits)
  from c obtain ns where ns: "create_loop search remaining [] = Inr ns" and R: "R = ds @ ns"
    by (subst (asm) create_loop_acc) (auto split: sum.splits)
  have "remaining = filter (\<lambda>p. fst p \<notin> display_name ` set es) attrs"
    using update_loop_result [OF u] by (simp add: loop_post_def)
  with u ns R that show thesis by blast
qed

lemma reconcile_result:
  assumes wf: "dict_wf attrs" and rec: "reconcile search es attrs = Inr R"
  shows "distinct (map display_name R)"
    and "set (map display_name R) = set (dict_keys attrs)"
    and "\<forall>d\<in>set R. \<exists>a. dict_get attrs (display_name d) = Some a \<and>
           (if display_name d \<in> display_name ` set es
            then \<exists>e\<in>set es. display_name e = display_name d \<and> overwrite_scopes search e a = Inr d
            else new_attribute search (display_name d) a = Inr d)"
proof -
  let ?rem = "filter (\<lambda>p. fst p \<notin> display_name ` set es) attrs"
  from rec obtain ds ns where R: "R = ds @ ns"
    and u: "update_loop search es attrs [] = Inr (ds, ?rem)"
    and c: "create_loop search ?rem [] = Inr ns"
    by (rule reconcile_split)
  have post: "loop_post search es attrs ds ?rem" using u by (rule update_loop_result)
  have nn: "map display_name ns = filter (\<lambda>k. k \<notin> display_name ` set es) (dict_keys attrs)"
    using create_loop_names [OF c] by (simp add: dict_keys_def filter_map comp_def)
  have dn: "set (map display_name ds) = display_name ` set es \<inter> set (dict_keys attrs)"
    and dd: "distinct (map display_name ds)"
    using post by (simp_all add: loop_post_def)
  have dns: "distinct (map display_name ns)"
    using wf by (simp add: nn dict_wf_def dict_keys_def)
  show "distinct (map display_name R)"
    unfolding R using dd dns dn nn by (auto simp del: set_map)
  show "set (map display_name R) = set (dict_keys attrs)"
    unfolding R using dn nn by (auto simp del: set_map)
  show "\<forall>d\<in>set R. \<exists>a. dict_get attrs (display_name d) = Some a \<and>
           (if display_name d \<in> display_name ` set es
            then \<exists>e\<in>set es. display_name e = display_name d \<and> overwrite_scopes search e a = Inr d
            else new_attribute search (display_name d) a = Inr d)"
  proof
    fix d assume "d \<in> set R"
    then consider "d \<in> set ds" | "d \<in> set ns" by (auto simp: R)
    then show "\<exists>a. dict_get attrs (display_name d) = Some a \<and>
           (if display_name d \<in> display_name ` set es
            then \<exists>e\<in>set es. display_name e = display_name d \<and> overwrite_scopes search e a = Inr d
            else new_attribute search (display_name d) a = Inr d)"
    proof cases
      case 1
      then obtain e a where e: "e \<in> set es" and g: "dict_get attrs (display_name e) = Some a"
        and o: "overwrite_scopes search e a = Inr d"
        using post unfolding loop_post_def by blast
      have "display_name d = display_name e" using o by (rule overwrite_scopes_kept)
      then show ?thesis using e g o by auto
    next
      case 2
      have "list_all2 (\<lambda>n p. new_attribute search (fst p) (snd p) = Inr n) ns ?rem"
        using c by (rule create_loop_result)
      from list_all2_setD1 [OF this 2]
      obtain p where p: "p \<in> set ?rem" and n: "new_attribute search (fst p) (snd p) = Inr d"
        by blast
      have k: "display_name d = fst p" using n by (rule new_attribute_name)
      have "dict_get attrs (fst p) = Some (snd p)"
        using wf p by (intro dict_get_SomeI) auto
      then show ?thesis using p n k by auto
    qed
  qed
qed

lemma update_loop_fixed:
  assumes "distinct (map display_name xs)"
    and "\<forall>x\<in>set xs. \<exists>a. dict_get attrs (display_name x) = Some a
            \<and> overwrite_scopes search x a = Inr x"
  shows "update_loop search xs attrs [] =
           Inr (xs, filter (\<lambda>p. fst p \<notin> display_name ` set xs) attrs)"
  using assms
proof (induction xs arbitrary: attrs)
  case Nil
  then show ?case by simp
next
  case (Cons x xs)
  let ?k = "display_name x"
  from Cons.prems obtain a where a: "dict_get attrs ?k = Some a"
    and o: "overwrite_scopes search x a = Inr x" by auto
  have "distinct (map display_name xs)" using Cons.prems(1) by simp
  moreover have "\<forall>y\<in>set xs. \<exists>b. dict_get (dict_pop ?k attrs) (display_name y) = Some b
            \<and> overwrite_scopes search y b = Inr y"
  proof
    fix y assume y: "y \<in> set xs"
    then have "display_name y \<noteq> ?k" using Cons.prems(1) by (auto simp: image_iff)
    then show "\<exists>b. dict_get (dict_pop ?k attrs) (display_name y) = Some b
            \<and> overwrite_scopes search y b = Inr y"
      using Cons.prems(2) y by (simp add: dict_get_pop_other)
  qed
  ultimately have "update_loop search xs (dict_pop ?k attrs) [] =
      Inr (xs, filter (\<lambda>p. fst p \<notin> display_name ` set xs) (dict_pop ?k attrs))"
    by (rule Cons.IH)
  then show ?case
    using a o by (simp add: update_loop_acc [of _ _ _ "[x]"] dict_pop_filter)
qed

lemma reconcile_fixed:
  assumes wf: "dict_wf attrs" and rec: "reconcile search es attrs = Inr R"
  shows "reconcile search R attrs = Inr R"
proof -
  note res = reconcile_result [OF wf rec]
  have "\<forall>x\<in>set R. \<exists>a. dict_get attrs (display_name x) = Some a
            \<and> overwrite_scopes search x a = Inr x"
  proof
    fix x assume "x \<in> set R"
    with res(3) obtain a where g: "dict_get attrs (display_name x) = Some a"
      and c: "if display_name x \<in> display_name ` set es
            then \<exists>e\<in>set es. display_name e = display_name x \<and> overwrite_scopes search e a = Inr x
            else new_attribute search (display_name x) a = Inr x" by blast
    have "overwrite_scopes search x a = Inr x"
      using c by (auto split: if_splits intro: overwrite_scopes_idem new_then_overwrite)
    with g show "\<exists>a. dict_get attrs (display_name x) = Some a
            \<and> overwrite_scopes search x a = Inr x" by blast
  qed
  with res(1) have "update_loop search R attrs [] =
           Inr (R, filter (\<lambda>p. fst p \<notin> display_name ` set R) attrs)"
    by (rule update_loop_fixed)
  moreover have "display_name ` set R = fst ` set attrs"
    using res(2) by (simp add: dict_keys_def)
  then have "filter (\<lambda>p. fst p \<notin> display_name ` set R) attrs = []"
    by (simp add: filter_empty_conv)
  ultimately show ?thesis by (simp add: reconcile_def)
qed

lemma get_all_qualified_names_Inl:
  "get_all_qualified_names search t = Inl err \<Longrightarrow> search t = Inl err"
  by (auto simp: get_all_qualified_names_def split: sum.splits)

lemma live_scope_rule_Inl:
  "live_scope_rule app (get_all_qualified_names search t) = Inl err \<Longrightarrow> search t = Inl err"
  by (auto simp: live_scope_rule_def split: option.splits list.splits if_splits
      dest: get_all_qualified_names_Inl)

lemma overwrite_scopes_Inl:
  "overwrite_scopes search e a = Inl err \<Longrightarrow>
     search ''Connection'' = Inl err \<or> search ''AtlasGlossary'' = Inl err"
  by (auto simp: overwrite_scopes_unfold split: sum.splits dest: live_scope_rule_Inl)

lemma new_attribute_Inl:
  "new_attribute search k a = Inl err \<Longrightarrow>
     search ''Connection'' = Inl err \<or> search ''AtlasGlossary'' = Inl err
     \<or> mapping_get (cfg_type a) = None"
  by (auto simp: new_attribute_unfold AttributeDef_create_def
      split: sum.splits option.splits dest: live_scope_rule_Inl)

lemma new_attribute_unknown_type:
  "mapping_get (cfg_type a) = None \<Longrightarrow> \<exists>err. new_attribute search k a = Inl err"
  by (auto simp: new_attribute_unfold AttributeDef_create_def split: sum.splits)

lemma update_loop_Inl:
  "update_loop search es attrs defs = Inl err \<Longrightarrow>
     search ''Connection'' = Inl err \<or> search ''AtlasGlossary'' = Inl err"
proof (induction es arbitrary: attrs defs)
  case Nil
  then show ?case by simp
next
  case (Cons e es)
  then show ?case
    by (auto split: option.splits sum.splits dest: overwrite_scopes_Inl)
qed

lemma create_loop_Inl:
  "create_loop search attrs defs = Inl err \<Longrightarrow>
     \<exists>p\<in>set attrs. new_attribute search (fst p) (snd p) = Inl err"
proof (induction attrs arbitrary: defs)
  case Nil
  then show ?case by simp
next
  case (Cons p attrs)
  then show ?case by (cases p) (auto split: sum.splits)
qed

lemma create_loop_unknown_type:
  assumes "p \<in> set attrs" and "mapping_get (cfg_type (snd p)) = None"
  shows "\<exists>err. create_loop search attrs defs = Inl err"
  using assms
proof (induction attrs arbitrary: defs)
  case Nil
  then show ?case by simp
next
  case (Cons q attrs)
  obtain k a where q: "q = (k, a)" by (cases q)
  show ?case
  proof (cases "new_attribute search k a")
    case (Inl err)
    then show ?thesis by (simp add: q)
  next
    case (Inr d)
    then have "p \<noteq> q"
      using new_attribute_unknown_type [of a search k] Cons.prems(2) q by auto
    then have "p \<in> set attrs" using Cons.prems(1) by simp
    from Cons.IH [OF this Cons.prems(2)] show ?thesis using Inr by (simp add: q)
  qed
qed

lemma reconcile_Inl:
  assumes "reconcile search es attrs = Inl err"
  shows "search ''Connection'' = Inl err \<or> search ''AtlasGlossary'' = Inl err
     \<or> (\<exists>p\<in>set attrs. fst p \<notin> display_name ` set es \<and> mapping_get (cfg_type (snd p)) = None)"
proof (cases "update_loop search es attrs []")
  case (Inl e)
  then have "e = err" using assms by (simp add: reconcile_def)
  then show ?thesis using update_loop_Inl [of search es attrs "[]" err] Inl by blast
next
  case (Inr res)
  obtain ds remaining where res: "res = (ds, remaining)" by (cases res)
  have rem: "remaining = filter (\<lambda>p. fst p \<notin> display_name ` set es) attrs"
    using update_loop_result [of search es attrs ds remaining] Inr res
    by (simp add: loop_post_def)
  have "create_loop search remaining ds = Inl err"
    using assms Inr res by (simp add: reconcile_def)
  then obtain p where "p \<in> set remaining" and "new_attribute search (fst p) (snd p) = Inl err"
    using create_loop_Inl by blast
  then show ?thesis using new_attribute_Inl [of search "fst p" "snd p" err] rem by auto
qed

lemma reconcile_unknown_type:
  assumes "p \<in> set attrs" and "fst p \<notin> display_name ` set es"
    and "mapping_get (cfg_type (snd p)) = None"
  shows "\<exists>err. reconcile search es attrs = Inl err"
proof (cases "update_loop search es attrs []")
  case (Inl e)
  then show ?thesis by (simp add: reconcile_def)
next
  case (Inr res)
  obtain ds remaining where res: "res = (ds, remaining)" by (cases res)
  have "remaining = filter (\<lambda>p. fst p \<notin> display_name ` set es) attrs"
    using update_loop_result [of search es attrs ds remaining] Inr res
    by (simp add: loop_post_def)
  then have "p \<in> set remaining" using assms by simp
  from create_loop_unknown_type [OF this assms(3)] show ?thesis
    using Inr res by (simp add: reconcile_def)
qed

lemma reconcile_Nil: "reconcile search [] attrs = create_loop search attrs []"
  by (simp add: reconcile_def)

lemma display_name_text_attribute [simp]: "display_name (text_attribute n ts) = n"
  by (simp add: text_attribute_def)

section \<open>Properties of the item loop\<close>

lemma is_write_simps [simp]:
  "is_write (Print m) = False" "is_write (File_open p) = False"
  "is_write (Client_init u k) = False" "is_write (Get_def n) = False"
  "is_write (Typedef_create t r) = True" "is_write (Typedef_update t r) = True"
  by (simp_all add: is_write_def)

lemma is_create_simps [simp]:
  "is_create (Print m) = False" "is_create (File_open p) = False"
  "is_create (Client_init u k) = False" "is_create (Get_def n) = False"
  "is_create (Typedef_create t r) = True" "is_create (Typedef_update t r) = False"
  by (simp_all add: is_create_def)

lemma is_update_simps [simp]:
  "is_update (Print m) = False" "is_update (File_open p) = False"
  "is_update (Client_init u k) = False" "is_update (Get_def n) = False"
  "is_update (Typedef_create t r) = False" "is_update (Typedef_update t r) = True"
  by (simp_all add: is_update_def)

lemma update_path_Inr:
  assumes "item_attributes item = Some attrs"
    and "reconcile (asset_search client s) (attribute_defs existing) attrs = Inr defs"
  shows "update_path client s existing item =
     ([Print (Updating (cm_display_name existing)),
       Typedef_update (CustomMetadata (existing\<lparr>attribute_defs := defs\<rparr>))
         (fst (typedef_update client s (CustomMetadata (existing\<lparr>attribute_defs := defs\<rparr>))))],
      fst (typedef_update client s (CustomMetadata (existing\<lparr>attribute_defs := defs\<rparr>))),
      snd (typedef_update client s (CustomMetadata (existing\<lparr>attribute_defs := defs\<rparr>))))"
  using assms by (simp add: update_path_def Let_def split: prod.splits)

lemma update_path_Inl:
  assumes "item_attributes item = Some attrs"
    and "reconcile (asset_search client s) (attribute_defs existing) attrs = Inl err"
  shows "update_path client s existing item =
     ([Print (Updating (cm_display_name existing))], Some err, s)"
  using assms by (simp add: update_path_def)

lemma update_path_None:
  assumes "item_attributes item = None"
  shows "update_path client s existing item =
     ([Print (Updating (cm_display_name existing))], Some AttributeError, s)"
  using assms by (simp add: update_path_def)

lemma update_path_no_create: "ev \<in> set (fst (update_path client s existing item)) \<Longrightarrow> \<not> is_create ev"
  by (cases "item_attributes item";
      cases "reconcile (asset_search client s) (attribute_defs existing) (the (item_attributes item))")
    (auto simp: update_path_Inr update_path_Inl update_path_None)

lemma create_path_no_update: "ev \<in> set (fst (create_path client s item)) \<Longrightarrow> \<not> is_update ev"
  by (auto simp: create_path_def Let_def split: option.splits sum.splits prod.splits if_splits)

lemma create_path_skipped:
  assumes "item_icon item \<noteq> None \<or> item_emoji item \<noteq> None"
  shows "(\<forall>ev\<in>set (fst (create_path client s item)). \<not> is_write ev)
     \<and> snd (snd (create_path client s item)) = s"
  using assms
  by (auto simp: create_path_def Let_def split: option.splits sum.splits prod.splits if_splits)

lemma process_item_not_found:
  assumes "get_custom_metadata_def client s (item_name item) = Inl NotFoundError"
  shows "process_item client s item =
     (Get_def (item_name item) # fst (create_path client s item),
      fst (snd (create_path client s item)), snd (snd (create_path client s item)))"
  using assms by (simp add: process_item_def split: prod.splits)

lemma process_item_found:
  assumes "get_custom_metadata_def client s (item_name item) = Inr existing"
  shows "process_item client s item =
     (Get_def (item_name item) # fst (update_path client s existing item),
      fst (snd (update_path client s existing item)),
      snd (snd (update_path client s existing item)))"
  using assms by (simp add: process_item_def split: prod.splits)

lemma process_item_other_error:
  assumes "get_custom_metadata_def client s (item_name item) = Inl err" and "err \<noteq> NotFoundError"
  shows "process_item client s item = ([Get_def (item_name item)], Some err, s)"
  using assms by (simp add: process_item_def)

lemma process_item_update_event:
  assumes "Typedef_update t r \<in> set (fst (process_item client s item))"
  shows "\<exists>existing attrs defs.
      get_custom_metadata_def client s (item_name item) = Inr existing
      \<and> item_attributes item = Some attrs
      \<and> reconcile (asset_search client s) (attribute_defs existing) attrs = Inr defs
      \<and> t = CustomMetadata (existing\<lparr>attribute_defs := defs\<rparr>)"
proof (cases "get_custom_metadata_def client s (item_name item)")
  case (Inl err)
  show ?thesis
  proof (cases "err = NotFoundError")
    case True
    then have "Typedef_update t r \<in> set (fst (create_path client s item))"
      using assms Inl by (simp add: process_item_not_found)
    from create_path_no_update [OF this] show ?thesis by simp
  next
    case False
    then show ?thesis using assms Inl by (simp add: process_item_other_error)
  qed
next
  case (Inr existing)
  then have ev: "Typedef_update t r \<in> set (fst (update_path client s existing item))"
    using assms by (simp add: process_item_found)
  show ?thesis
  proof (cases "item_attributes item")
    case None
    then show ?thesis using ev by (simp add: update_path_None)
  next
    case (Some attrs)
    show ?thesis
    proof (cases "reconcile (asset_search client s) (attribute_defs existing) attrs")
      case (Inl err)
      then show ?thesis using ev Some by (simp add: update_path_Inl)
    next
      case r: (Inr defs)
      then show ?thesis using ev Some Inr by (simp add: update_path_Inr)
    qed
  qed
qed

lemma create_path_no_name:
  "item_name item = None \<Longrightarrow> create_path client s item = ([], Some TypeError, s)"
  by (simp add: create_path_def)

lemma create_path_Inl:
  assumes "item_name item = Some name" and "item_attributes item = Some attrs"
    and "create_loop (asset_search client s) attrs [] = Inl err"
  shows "create_path client s item = ([Print (Creating name)], Some err, s)"
  using assms by (simp add: create_path_def)

lemma create_path_stub:
  assumes "item_name item = Some name" and "item_attributes item = Some attrs"
    and "create_loop (asset_search client s) attrs [] = Inr defs"
    and "item_icon item \<noteq> None \<or> item_emoji item \<noteq> None"
  shows "create_path client s item = ([Print (Creating name)], None, s)"
  using assms by (auto simp: create_path_def)

lemma create_path_Inr:
  assumes "item_name item = Some name" and "item_attributes item = Some attrs"
    and "create_loop (asset_search client s) attrs [] = Inr defs"
    and "item_icon item = None" and "item_emoji item = None"
  shows "create_path client s item =
     ([Print (Creating name),
       Typedef_create (CustomMetadata
          \<lparr>cm_display_name = name, attribute_defs = defs,
           cm_options = Some (''BAG_SIMPLE'', ''YELLOW'')\<rparr>)
         (fst (typedef_create client s (CustomMetadata
          \<lparr>cm_display_name = name, attribute_defs = defs,
           cm_options = Some (''BAG_SIMPLE'', ''YELLOW'')\<rparr>)))],
      typedef_create client s (CustomMetadata
          \<lparr>cm_display_name = name, attribute_defs = defs,
           cm_options = Some (''BAG_SIMPLE'', ''YELLOW'')\<rparr>))"
  using assms
  by (simp add: create_path_def CustomMetadataDef_create_def Let_def split: prod.splits)

lemma create_path_unknown_type:
  assumes "item_attributes item = Some attrs" and "p \<in> set attrs"
    and "mapping_get (cfg_type (snd p)) = None"
  shows "\<exists>evs err. create_path client s item = (evs, Some err, s) \<and> (\<forall>ev\<in>set evs. \<not> is_write ev)"
proof (cases "item_name item")
  case None
  then show ?thesis by (simp add: create_path_no_name)
next
  case (Some name)
  from create_loop_unknown_type [OF assms(2,3)]
  obtain err where "create_loop (asset_search client s) attrs [] = Inl err" by blast
  from create_path_Inl [OF Some assms(1) this] show ?thesis by simp
qed

lemma process_enum_item_not_found:
  assumes "get_by_name client s (enum_item_name item) = Inl NotFoundError"
  shows "process_enum_item client s item =
     (case enum_item_name item of
        None \<Rightarrow> ([Get_def None], Some TypeError, s)
      | Some n \<Rightarrow>
          ([Get_def (Some n), Print (Creating n),
            Typedef_create (Enum (EnumDef_create (Some n) (enum_item_values item)))
              (fst (typedef_create client s
                 (Enum (EnumDef_create (Some n) (enum_item_values item)))))],
           typedef_create client s (Enum (EnumDef_create (Some n) (enum_item_values item)))))"
  using assms
  by (simp add: process_enum_item_def Let_def split: option.splits prod.splits)

lemma process_enum_item_found:
  assumes "get_by_name client s (enum_item_name item) = Inr num_def"
  shows "process_enum_item client s item =
     (case enum_name num_def of
        None \<Rightarrow> ([Get_def (enum_item_name item)], Some TypeError, s)
      | Some n \<Rightarrow>
          ([Get_def (enum_item_name item), Print (Updating n),
            Typedef_update (Enum (EnumDef_update (enum_item_name item) (enum_item_values item) True))
              (fst (typedef_update client s
                 (Enum (EnumDef_update (enum_item_name item) (enum_item_values item) True))))],
           typedef_update client s
             (Enum (EnumDef_update (enum_item_name item) (enum_item_values item) True))))"
  using assms
  by (simp add: process_enum_item_def Let_def split: option.splits prod.splits)

lemma process_enum_item_other_error:
  assumes "get_by_name client s (enum_item_name item) = Inl err" and "err \<noteq> NotFoundError"
  shows "process_enum_item client s item = ([Get_def (enum_item_name item)], Some err, s)"
  using assms by (simp add: process_enum_item_def)

section \<open>Properties of the tag script\<close>

lemma build_tag_def_name:
  "build_tag_def client ty n cfg = Inr (Some td) \<Longrightarrow> tag_def_name td = n"
  by (auto simp: build_tag_def_def AtlanTagDef_create_def split: if_splits option.splits)

lemma build_tag_def_other_type:
  "ty \<noteq> ''color'' \<Longrightarrow> ty \<noteq> ''emoji'' \<Longrightarrow> ty \<noteq> ''icon'' \<Longrightarrow>
     build_tag_def client ty n cfg = Inr None"
  by (simp add: build_tag_def_def)

lemma created_names_append:
  "created_names (evs @ evs') = created_names evs @ created_names evs'"
  by (induction evs rule: created_names.induct) simp_all

lemma is_outcome_message_simps [simp]:
  "is_outcome_message (Print (Created_tag ty n)) = True"
  "is_outcome_message (Print (Error_creating_tag n e)) = True"
  "is_outcome_message (Typedef_create t r) = False"
  by (simp_all add: is_outcome_message_def)

lemma create_tag_from_config_wf:
  assumes "tag_type cfg = Some ty" and "tag_name cfg = Some n"
  shows "\<exists>evs r s'. create_tag_from_config client s cfg = (evs, Inr r, s')
           \<and> entry_post client s n evs r"
proof (cases "build_tag_def client ty n cfg")
  case (Inl e)
  then show ?thesis using assms by (simp add: create_tag_from_config_def entry_post_def)
next
  case (Inr b)
  show ?thesis
  proof (cases b)
    case None
    then show ?thesis using assms Inr by (simp add: create_tag_from_config_def entry_post_def)
  next
    case (Some td)
    have n: "tag_def_name td = n" using Inr Some by (simp add: build_tag_def_name)
    obtain resp s' where c: "typedef_create client s (Tag td) = (resp, s')"
      by (cases "typedef_create client s (Tag td)")
    show ?thesis
      using assms Inr Some c n
      by (cases resp) (simp_all add: create_tag_from_config_def entry_post_def)
  qed
qed

lemma tags_loop_wf:
  assumes "\<forall>cfg\<in>set cfgs. tag_type cfg \<noteq> None \<and> tag_name cfg \<noteq> None"
  shows "\<exists>evs s'. tags_loop client s cfgs acc
            = (evs, Inr (acc @ filter (\<lambda>n. n \<noteq> []) (created_names evs)), s')
          \<and> length (filter is_outcome_message evs) = length cfgs
          \<and> (\<forall>td e. Typedef_create (Tag td) (Some e) \<in> set evs
                \<longrightarrow> Print (Error_creating_tag (tag_def_name td) e) \<in> set evs)"
  using assms
proof (induction cfgs arbitrary: s acc)
  case Nil
  then show ?case by simp
next
  case (Cons cfg cfgs)
  from Cons.prems obtain ty n where ty: "tag_type cfg = Some ty" and n: "tag_name cfg = Some n"
    by auto
  from create_tag_from_config_wf [OF ty n, of client s]
  obtain evs r s1 where c: "create_tag_from_config client s cfg = (evs, Inr r, s1)"
    and post: "entry_post client s n evs r" by blast
  let ?acc = "if py_not r then acc else acc @ [the r]"
  have rest: "\<forall>cfg\<in>set cfgs. tag_type cfg \<noteq> None \<and> tag_name cfg \<noteq> None"
    using Cons.prems by simp
  from Cons.IH [OF rest, of s1 ?acc]
  obtain evs' s2 where l: "tags_loop client s1 cfgs ?acc
            = (evs', Inr (?acc @ filter (\<lambda>n. n \<noteq> []) (created_names evs')), s2)"
    and cnt: "length (filter is_outcome_message evs') = length cfgs"
    and logged: "\<forall>td e. Typedef_create (Tag td) (Some e) \<in> set evs'
                \<longrightarrow> Print (Error_creating_tag (tag_def_name td) e) \<in> set evs'"
    by blast
  have acc: "?acc = acc @ filter (\<lambda>n. n \<noteq> []) (created_names evs)"
    using post by (cases r) (auto simp: entry_post_def py_not_def)
  have "tags_loop client s (cfg # cfgs) acc
          = (evs @ evs', Inr (?acc @ filter (\<lambda>n. n \<noteq> []) (created_names evs')), s2)"
    by (simp only: tags_loop.simps c l prod.case sum.case)
  then have "tags_loop client s (cfg # cfgs) acc
          = (evs @ evs', Inr (acc @ filter (\<lambda>n. n \<noteq> []) (created_names (evs @ evs'))), s2)"
    unfolding acc by (simp add: created_names_append)
  moreover have "length (filter is_outcome_message (evs @ evs')) = length (cfg # cfgs)"
    using post cnt by (simp add: entry_post_def)
  moreover have "\<forall>td e. Typedef_create (Tag td) (Some e) \<in> set (evs @ evs')
                \<longrightarrow> Print (Error_creating_tag (tag_def_name td) e) \<in> set (evs @ evs')"
    using post logged by (auto simp: entry_post_def)
  ultimately show ?case by blast
qed

section \<open>Errors of the create and update calls\<close>

lemma create_path_write_error:
  assumes "Typedef_create t (Some e) \<in> set (fst (create_path client s item))
         \<or> Typedef_update t (Some e) \<in> set (fst (create_path client s item))"
  shows "fst (snd (create_path client s item)) = Some e"
  using assms
  by (auto simp: create_path_def Let_def split: option.splits sum.splits prod.splits if_splits)

lemma update_path_write_error:
  assumes "Typedef_create t (Some e) \<in> set (fst (update_path client s existing item))
         \<or> Typedef_update t (Some e) \<in> set (fst (update_path client s existing item))"
  shows "fst (snd (update_path client s existing item)) = Some e"
  using assms
  by (auto simp: update_path_def Let_def split: option.splits sum.splits prod.splits)

lemma process_item_write_error:
  assumes "Typedef_create t (Some e) \<in> set (fst (process_item client s item))
         \<or> Typedef_update t (Some e) \<in> set (fst (process_item client s item))"
  shows "fst (snd (process_item client s item)) = Some e"
proof (cases "get_custom_metadata_def client s (item_name item)")
  case (Inl err)
  show ?thesis
  proof (cases "err = NotFoundError")
    case True
    then show ?thesis
      using assms Inl create_path_write_error [of t e client s item]
      by (simp add: process_item_not_found)
  next
    case False
    then show ?thesis using assms Inl by (simp add: process_item_other_error)
  qed
next
  case (Inr existing)
  then show ?thesis
    using assms update_path_write_error [of t e client s existing item]
    by (simp add: process_item_found)
qed

lemma process_enum_item_write_error:
  assumes "Typedef_create t (Some e) \<in> set (fst (process_enum_item client s item))
         \<or> Typedef_update t (Some e) \<in> set (fst (process_enum_item client s item))"
  shows "fst (snd (process_enum_item client s item)) = Some e"
  using assms
  by (auto simp: process_enum_item_def Let_def split: option.splits sum.splits prod.splits if_splits)

lemma main_loop_abort:
  "fst (snd (process_item client s item)) = Some e \<Longrightarrow>
     main_loop client s (item # rest) = process_item client s item"
  by (cases "process_item client s item") simp

lemma enum_loop_abort:
  "fst (snd (process_enum_item client s item)) = Some e \<Longrightarrow>
     enum_loop client s (item # rest) = process_enum_item client s item"
  by (cases "process_enum_item client s item") simp

section \<open>Evaluating the examples\<close>

lemma get_all_qualified_names_example:
  "get_all_qualified_names example_search ''Connection'' = Inr {''default/snowflake/1'', []}"
  by (simp add: get_all_qualified_names_def example_search_def)

lemma new_attribute_on_asset_types:
  "new_attribute search n (on_asset_types ts) = Inr (text_attribute n (scope_rule (Some ts) complete_type_list))"
  by (simp add: new_attribute_unfold on_asset_types_def plain_config_def text_attribute_def
      live_scope_rule_def scope_rule_def AttributeDef_create_def mapping_get_def mapping_def)

lemma overwrite_scopes_on_asset_types:
  "overwrite_scopes search (text_attribute n us) (on_asset_types ts)
     = Inr (text_attribute n (scope_rule (Some ts) complete_type_list))"
  by (simp add: overwrite_scopes_unfold on_asset_types_def plain_config_def text_attribute_def
      live_scope_rule_def scope_rule_def)

lemma new_attribute_all_connections:
  "new_attribute example_search ''Owner'' all_connections_config = Inr all_connections_attribute"
  by (simp add: new_attribute_unfold all_connections_config_def all_connections_attribute_def
      plain_config_def text_attribute_def live_scope_rule_def scope_rule_def
      get_all_qualified_names_example AttributeDef_create_def mapping_get_def mapping_def)

lemma reconcile_example:
  "reconcile search example_existing example_desired = Inr example_reconciled"
  by (simp add: reconcile_def example_existing_def example_desired_def example_reconciled_def
      dict_get_def dict_pop_def overwrite_scopes_on_asset_types new_attribute_on_asset_types
      scope_rule_def)

lemma reconcile_duplicate_example:
  "reconcile search duplicate_existing example_desired = Inr example_reconciled"
  by (simp add: reconcile_def duplicate_existing_def example_desired_def example_reconciled_def
      dict_get_def dict_pop_def overwrite_scopes_on_asset_types new_attribute_on_asset_types
      scope_rule_def)

lemma dict_wf_example_desired: "dict_wf example_desired"
  by (simp add: dict_wf_def example_desired_def)

lemma create_loop_example:
  "create_loop search example_desired [] = Inr example_reconciled"
  by (simp add: example_desired_def example_reconciled_def new_attribute_on_asset_types
      scope_rule_def)

lemma process_item_update_example:
  "process_item catalog_sdk [CustomMetadata example_definition] example_item =
     ([Get_def (Some ''Governance''), Print (Updating ''Governance''),
       Typedef_update (CustomMetadata updated_definition) None],
      None, [CustomMetadata updated_definition])"
proof -
  have g: "get_custom_metadata_def catalog_sdk [CustomMetadata example_definition]
             (item_name example_item) = Inr example_definition"
    by (simp add: catalog_sdk_def example_item_def example_definition_def)
  have a: "item_attributes example_item = Some example_desired"
    by (simp add: example_item_def)
  have r: "reconcile (asset_search catalog_sdk [CustomMetadata example_definition])
             (attribute_defs example_definition) example_desired = Inr example_reconciled"
    by (simp add: example_definition_def reconcile_example)
  show ?thesis
    unfolding process_item_found [OF g] update_path_Inr [OF a r]
    by (simp add: updated_definition_def catalog_sdk_def example_definition_def example_item_def)
qed

lemma process_item_duplicate_example:
  "process_item catalog_sdk [CustomMetadata duplicate_definition] example_item =
     ([Get_def (Some ''Governance''), Print (Updating ''Governance''),
       Typedef_update (CustomMetadata updated_definition) None],
      None, [CustomMetadata updated_definition])"
proof -
  have g: "get_custom_metadata_def catalog_sdk [CustomMetadata duplicate_definition]
             (item_name example_item) = Inr duplicate_definition"
    by (simp add: catalog_sdk_def example_item_def duplicate_definition_def
        example_definition_def)
  have a: "item_attributes example_item = Some example_desired"
    by (simp add: example_item_def)
  have r: "reconcile (asset_search catalog_sdk [CustomMetadata duplicate_definition])
             (attribute_defs duplicate_definition) example_desired = Inr example_reconciled"
    by (simp add: duplicate_definition_def reconcile_duplicate_example)
  show ?thesis
    unfolding process_item_found [OF g] update_path_Inr [OF a r]
    by (simp add: updated_definition_def catalog_sdk_def duplicate_definition_def
        example_definition_def example_item_def)
qed

lemma overwrite_scopes_unknown_type:
  "overwrite_scopes search (text_attribute n us) ((on_asset_types ts)\<lparr>cfg_type := ty\<rparr>)
     = Inr (text_attribute n (scope_rule (Some ts) complete_type_list))"
  by (simp add: overwrite_scopes_unfold on_asset_types_def plain_config_def text_attribute_def
      live_scope_rule_def scope_rule_def)

lemma reconcile_unknown_type_example:
  "reconcile search example_existing unknown_type_desired = Inr [text_attribute ''B'' {''Column''}]"
  by (simp add: reconcile_def example_existing_def unknown_type_desired_def
      dict_get_def dict_pop_def overwrite_scopes_unknown_type scope_rule_def)

lemma mapping_get_unknown: "mapping_get (Some ''unknown'') = None"
  by (simp add: mapping_get_def mapping_def)

lemma process_item_create_example:
  "process_item catalog_sdk [] example_item =
     ([Get_def (Some ''Governance''), Print (Creating ''Governance''),
       Typedef_create
         (CustomMetadata \<lparr>cm_display_name = ''Governance'', attribute_defs = example_reconciled,
            cm_options = Some (''BAG_SIMPLE'', ''YELLOW'')\<rparr>) None],
      None,
      [CustomMetadata \<lparr>cm_display_name = ''Governance'', attribute_defs = example_reconciled,
         cm_options = Some (''BAG_SIMPLE'', ''YELLOW'')\<rparr>])"
proof -
  have g: "get_custom_metadata_def catalog_sdk [] (item_name example_item) = Inl NotFoundError"
    by (simp add: catalog_sdk_def example_item_def)
  have n: "item_name example_item = Some ''Governance''"
    and a: "item_attributes example_item = Some example_desired"
    and i: "item_icon example_item = None" and e: "item_emoji example_item = None"
    by (simp_all add: example_item_def)
  have c: "create_loop (asset_search catalog_sdk []) example_desired [] = Inr example_reconciled"
    by (rule create_loop_example)
  show ?thesis
    unfolding process_item_not_found [OF g] create_path_Inr [OF n a c i e]
    by (simp add: catalog_sdk_def n)
qed

lemma create_color_tag_example:
  "create_tag_from_config catalog_sdk [] color_tag =
     ([Typedef_create (Tag critical_def) None, Print (Created_tag ''color'' ''Critical'')],
      Inr (Some ''Critical''), [Tag critical_def])"
  by (simp add: create_tag_from_config_def build_tag_def_def color_tag_def critical_def_def
      catalog_sdk_def)

lemma create_color_tag_again_example:
  "create_tag_from_config catalog_sdk [Tag critical_def] color_tag =
     ([Typedef_create (Tag critical_def) (Some (RemoteError ''already exists'')),
       Print (Error_creating_tag ''Critical'' (RemoteError ''already exists''))],
      Inr None, [Tag critical_def])"
  by (simp add: create_tag_from_config_def build_tag_def_def color_tag_def critical_def_def
      catalog_sdk_def)

lemma create_emoji_tag_example:
  "create_tag_from_config catalog_sdk [Tag critical_def] emoji_tag =
     ([Typedef_create (Tag pii_def) None, Print (Created_tag ''emoji'' ''PII'')],
      Inr (Some ''PII''), [Tag critical_def, Tag pii_def])"
  by (simp add: create_tag_from_config_def build_tag_def_def emoji_tag_def critical_def_def
      pii_def_def catalog_sdk_def AtlanTagDef_create_def)

lemma tags_loop_example:
  "tags_loop catalog_sdk [] [color_tag, color_tag, emoji_tag] [] =
     ([Typedef_create (Tag critical_def) None, Print (Created_tag ''color'' ''Critical''),
       Typedef_create (Tag critical_def) (Some (RemoteError ''already exists'')),
       Print (Error_creating_tag ''Critical'' (RemoteError ''already exists'')),
       Typedef_create (Tag pii_def) None, Print (Created_tag ''emoji'' ''PII'')],
      Inr [''Critical'', ''PII''], [Tag critical_def, Tag pii_def])"
  by (simp add: create_color_tag_example create_color_tag_again_example
      create_emoji_tag_example py_not_def)

lemma main_loop_failing_create_example:
  "main_loop failing_create_sdk [] [example_item, second_item] =
     ([Get_def (Some ''Governance''), Print (Creating ''Governance''),
       Typedef_create (CustomMetadata governance_definition) (Some (RemoteError ''server error''))],
      Some (RemoteError ''server error''), [])"
proof -
  have g: "get_custom_metadata_def failing_create_sdk [] (item_name example_item)
             = Inl NotFoundError"
    by (simp add: failing_create_sdk_def catalog_sdk_def example_item_def)
  have n: "item_name example_item = Some ''Governance''"
    and a: "item_attributes example_item = Some example_desired"
    and i: "item_icon example_item = None" and e: "item_emoji example_item = None"
    by (simp_all add: example_item_def)
  have c: "create_loop (asset_search failing_create_sdk []) example_desired []
             = Inr example_reconciled"
    by (rule create_loop_example)
  have "process_item failing_create_sdk [] example_item =
     ([Get_def (Some ''Governance''), Print (Creating ''Governance''),
       Typedef_create (CustomMetadata governance_definition) (Some (RemoteError ''server error''))],
      Some (RemoteError ''server error''), [])"
    unfolding process_item_not_found [OF g] create_path_Inr [OF n a c i e]
    by (simp add: failing_create_sdk_def n governance_definition_def)
  then show ?thesis by simp
qed

section \<open>The scope rule in the code\<close>

text \<open>
  C2 (as stated, refuted). The spec gives the universe only for the one-element list
  \<^verbatim>\<open>["all"]\<close> and the literal set otherwise. The code tests \<^verbatim>\<open>app[0] == "all"\<close>: for
  \<^verbatim>\<open>applicable_asset_types: ["all", "Table"]\<close> the new attribute gets the whole static
  asset-type universe, not \<open>{all, Table}\<close>.
\<close>

theorem scope_first_all_counterexample:
  "map_sum id applicable_asset_types
      (new_attribute example_search ''A'' (on_asset_types [''all'', ''Table'']))
     = Inr complete_type_list
   \<and> complete_type_list \<noteq> stated_scope_rule (Some [''all'', ''Table'']) complete_type_list"
proof -
  have "''ADLSAccount'' \<in> complete_type_list" by (simp add: complete_type_list_def)
  moreover have "''ADLSAccount'' \<notin> stated_scope_rule (Some [''all'', ''Table'']) complete_type_list"
    by (simp add: stated_scope_rule_def)
  ultimately have "complete_type_list \<noteq> stated_scope_rule (Some [''all'', ''Table'']) complete_type_list"
    by metis
  then show ?thesis
    by (simp add: new_attribute_on_asset_types scope_rule_def text_attribute_def)
qed

text \<open>
  C2 (amended). In both places where scopes are computed (a new attribute and an existing
  attribute that is overwritten), each of the seven categories follows \<open>scope_rule\<close>: the
  empty set for an absent, \<^verbatim>\<open>None\<close> or empty input, the universe of the category when the
  first element of the list is \<^verbatim>\<open>"all"\<close>, whatever follows it, and the literal set
  otherwise. The universe is the live lookup of qualified names for connections
  (\<^verbatim>\<open>Connection\<close>) and glossaries (\<^verbatim>\<open>AtlasGlossary\<close>) and the static table for the other
  five.
\<close>

theorem scope_resolution_rule:
  assumes "new_attribute search k a = Inr d \<or> overwrite_scopes search e a = Inr d"
  shows "live_scope_rule (cfg_applicable_connections a)
             (get_all_qualified_names search ''Connection'') = Inr (applicable_connections d)
       \<and> live_scope_rule (cfg_applicable_glossaries a)
             (get_all_qualified_names search ''AtlasGlossary'') = Inr (applicable_glossaries d)
       \<and> applicable_domains d = scope_rule (cfg_applicable_domains a) all_domains
       \<and> applicable_asset_types d = scope_rule (cfg_applicable_asset_types a) complete_type_list
       \<and> applicable_glossary_types d
           = scope_rule (cfg_applicable_glossary_types a) all_glossary_types
       \<and> applicable_domain_types d = scope_rule (cfg_applicable_domain_types a) all_domain_types
       \<and> applicable_other_asset_types d
           = scope_rule (cfg_applicable_other_asset_types a) all_other_types"
  using assms
proof
  assume "new_attribute search k a = Inr d"
  then show ?thesis
    by (auto simp: new_attribute_unfold AttributeDef_create_def split: sum.splits option.splits)
next
  assume "overwrite_scopes search e a = Inr d"
  then show ?thesis
    by (auto simp: overwrite_scopes_unfold split: sum.splits)
qed

theorem scope_resolution_rule_witness:
  "new_attribute example_search ''Owner'' all_connections_config = Inr all_connections_attribute
   \<and> applicable_connections all_connections_attribute = {''default/snowflake/1'', []}
   \<and> applicable_glossaries all_connections_attribute = {}
   \<and> applicable_asset_types all_connections_attribute = {''Table'', ''View''}
   \<and> applicable_domains all_connections_attribute = {}"
proof -
  have n: "new_attribute example_search ''Owner'' all_connections_config
             = Inr all_connections_attribute"
    by (rule new_attribute_all_connections)
  have "applicable_connections all_connections_attribute = {''default/snowflake/1'', []}
   \<and> applicable_glossaries all_connections_attribute = {}
   \<and> applicable_asset_types all_connections_attribute = {''Table'', ''View''}
   \<and> applicable_domains all_connections_attribute = {}"
    using scope_resolution_rule [OF disjI1 [OF n]]
    by (auto simp: all_connections_config_def plain_config_def live_scope_rule_def
        scope_rule_def get_all_qualified_names_example)
  with n show ?thesis by (rule conjI)
qed

section \<open>The reconciled attribute list\<close>

text \<open>
  C1 (as stated, refuted). The spec's own example: existing \<open>{A, B}\<close>, desired \<open>{B, C}\<close>.
  The reconciled list is \<open>[B, C]\<close>: \<open>A\<close>, which the desired mapping does not mention, is
  not retained, so the list does not hold one attribute per name of the union.
\<close>

theorem reconcile_drops_unmentioned_counterexample:
  "reconcile example_search example_existing example_desired = Inr example_reconciled
   \<and> map display_name example_reconciled = [''B'', ''C'']
   \<and> \<not> one_per_name_of_union example_existing example_desired example_reconciled"
proof -
  have names: "map display_name example_reconciled = [''B'', ''C'']"
    by (simp add: example_reconciled_def)
  have "''A'' \<in> display_name ` set example_existing \<union> set (dict_keys example_desired)"
    by (simp add: example_existing_def)
  moreover have "''A'' \<notin> set (map display_name example_reconciled)"
    unfolding names by simp
  ultimately have "\<not> one_per_name_of_union example_existing example_desired example_reconciled"
    unfolding one_per_name_of_union_def by metis
  with names show ?thesis by (simp add: reconcile_example)
qed

text \<open>
  C1 (amended). For every existing attribute list and every desired mapping, the reconciler
  either raises, and then a live lookup raised that error or a desired entry that matches no
  existing attribute has a type outside the table; or it returns a list \<open>R\<close> with exactly
  one attribute per key of the desired mapping and nothing else. In \<open>R\<close>, an attribute whose
  display name occurs in the existing list is an existing attribute of that name with its
  scope fields overwritten from the desired entry; every other one is newly built from its
  desired entry; the overwritten ones come first and the new ones follow in the order of the
  desired mapping. An existing attribute whose display name is not a desired key is dropped.
\<close>

theorem reconcile_desired_only:
  assumes "dict_wf attrs"
  shows "case reconcile search es attrs of
           Inl err \<Rightarrow>
             search ''Connection'' = Inl err \<or> search ''AtlasGlossary'' = Inl err
             \<or> (\<exists>p\<in>set attrs. fst p \<notin> display_name ` set es
                    \<and> mapping_get (cfg_type (snd p)) = None)
         | Inr R \<Rightarrow>
             distinct (map display_name R)
             \<and> set (map display_name R) = set (dict_keys attrs)
             \<and> (\<forall>d\<in>set R. \<exists>a. dict_get attrs (display_name d) = Some a \<and>
                   (if display_name d \<in> display_name ` set es
                    then \<exists>e\<in>set es. display_name e = display_name d
                           \<and> overwrite_scopes search e a = Inr d
                    else new_attribute search (display_name d) a = Inr d))
             \<and> (\<exists>ds ns. R = ds @ ns
                   \<and> display_name ` set ds \<subseteq> display_name ` set es
                   \<and> map display_name ns
                       = filter (\<lambda>k. k \<notin> display_name ` set es) (dict_keys attrs))
             \<and> (\<forall>e\<in>set es. display_name e \<notin> set (dict_keys attrs)
                   \<longrightarrow> display_name e \<notin> display_name ` set R)"
proof (cases "reconcile search es attrs")
  case (Inl err)
  then show ?thesis using reconcile_Inl [of search es attrs err] by simp
next
  case (Inr R)
  note res = reconcile_result [OF assms Inr]
  let ?rem = "filter (\<lambda>p. fst p \<notin> display_name ` set es) attrs"
  from Inr obtain ds ns where R: "R = ds @ ns"
    and u: "update_loop search es attrs [] = Inr (ds, ?rem)"
    and c: "create_loop search ?rem [] = Inr ns"
    by (rule reconcile_split)
  have "set (map display_name ds) = display_name ` set es \<inter> set (dict_keys attrs)"
    using update_loop_result [OF u] by (simp add: loop_post_def)
  then have sub: "display_name ` set ds \<subseteq> display_name ` set es" by auto
  have nn: "map display_name ns = filter (\<lambda>k. k \<notin> display_name ` set es) (dict_keys attrs)"
    using create_loop_names [OF c] by (simp add: dict_keys_def filter_map comp_def)
  have split: "\<exists>ds ns. R = ds @ ns
                   \<and> display_name ` set ds \<subseteq> display_name ` set es
                   \<and> map display_name ns
                       = filter (\<lambda>k. k \<notin> display_name ` set es) (dict_keys attrs)"
    using R sub nn by blast
  have dropped: "\<forall>e\<in>set es. display_name e \<notin> set (dict_keys attrs)
                   \<longrightarrow> display_name e \<notin> display_name ` set R"
    using res(2) by auto
  show ?thesis
    unfolding Inr sum.case using res(1) res(2) res(3) split dropped by blast
qed

theorem reconcile_desired_only_witness:
  "dict_wf example_desired
   \<and> reconcile example_search example_existing example_desired = Inr example_reconciled
   \<and> distinct (map display_name example_reconciled)
   \<and> set (map display_name example_reconciled) = set (dict_keys example_desired)"
proof -
  have r: "reconcile example_search example_existing example_desired = Inr example_reconciled"
    by (rule reconcile_example)
  have "distinct (map display_name example_reconciled)
     \<and> set (map display_name example_reconciled) = set (dict_keys example_desired)"
    using reconcile_desired_only [OF dict_wf_example_desired, of example_search example_existing]
    unfolding r sum.case by blast
  with dict_wf_example_desired r show ?thesis by blast
qed

text \<open>
  C3. Reconciliation is idempotent: when a run (on any existing list, or the create path,
  which builds every desired entry anew) returns the list \<open>R\<close>, a second run with the same
  desired mapping, the same lookups and \<open>R\<close> as the existing list returns \<open>R\<close> again, every
  attribute with every scope set as it was.
\<close>

theorem reconcile_idempotent:
  assumes "dict_wf attrs"
    and "reconcile search es attrs = Inr R \<or> create_loop search attrs [] = Inr R"
  shows "reconcile search R attrs = Inr R"
  using assms reconcile_fixed [of attrs search es R] reconcile_fixed [of attrs search "[]" R]
  by (auto simp: reconcile_Nil)

theorem reconcile_idempotent_witness:
  "dict_wf example_desired
   \<and> reconcile example_search example_existing example_desired = Inr example_reconciled
   \<and> reconcile example_search example_reconciled example_desired = Inr example_reconciled"
proof -
  have r: "reconcile example_search example_existing example_desired = Inr example_reconciled"
    by (rule reconcile_example)
  have "reconcile example_search example_reconciled example_desired = Inr example_reconciled"
    by (rule reconcile_idempotent [OF dict_wf_example_desired disjI1 [OF r]])
  with dict_wf_example_desired r show ?thesis by blast
qed

section \<open>The update path of \<^verbatim>\<open>cm_generator.py\<close>\<close>

text \<open>
  C9. Whenever an item is processed and an update call is issued, the attribute list of the
  definition that is sent holds exactly the keys of the item's desired mapping, each once:
  also when the existing definition repeats a display name, and no display name outside the
  mapping is in it.
\<close>

theorem persisted_names_are_desired_keys:
  assumes "item_attributes item = Some attrs" and "dict_wf attrs"
    and "Typedef_update (CustomMetadata d) r \<in> set (fst (process_item client s item))"
  shows "distinct (map display_name (attribute_defs d))
       \<and> set (map display_name (attribute_defs d)) = set (dict_keys attrs)"
proof -
  from process_item_update_event [OF assms(3)] assms(1)
  obtain existing defs
    where "reconcile (asset_search client s) (attribute_defs existing) attrs = Inr defs"
      and "d = existing\<lparr>attribute_defs := defs\<rparr>"
    by auto
  then show ?thesis using reconcile_result [OF assms(2)] by simp
qed

theorem persisted_names_are_desired_keys_witness:
  "item_attributes example_item = Some example_desired
   \<and> dict_wf example_desired
   \<and> map display_name (attribute_defs duplicate_definition) = [''B'', ''A'', ''B'']
   \<and> Typedef_update (CustomMetadata updated_definition) None
       \<in> set (fst (process_item catalog_sdk [CustomMetadata duplicate_definition] example_item))
   \<and> distinct (map display_name (attribute_defs updated_definition))
   \<and> set (map display_name (attribute_defs updated_definition)) = set (dict_keys example_desired)"
proof -
  have a: "item_attributes example_item = Some example_desired"
    by (simp add: example_item_def)
  have ev: "Typedef_update (CustomMetadata updated_definition) None
       \<in> set (fst (process_item catalog_sdk [CustomMetadata duplicate_definition] example_item))"
    by (simp add: process_item_duplicate_example)
  have dup: "map display_name (attribute_defs duplicate_definition) = [''B'', ''A'', ''B'']"
    by (simp add: duplicate_definition_def duplicate_existing_def)
  from persisted_names_are_desired_keys [OF a dict_wf_example_desired ev] a
    dict_wf_example_desired dup ev
  show ?thesis by blast
qed

text \<open>
  C8 (as stated, refuted). An item with an \<^verbatim>\<open>"icon"\<close> key whose definition already exists
  is not skipped: the \<^verbatim>\<open>"icon"\<close> test stands only in the create branch, and the update call
  is issued.
\<close>

theorem icon_item_updated_counterexample:
  "item_icon icon_item = Some ''PhBag''
   \<and> process_item catalog_sdk [CustomMetadata example_definition] icon_item =
       ([Get_def (Some ''Governance''), Print (Updating ''Governance''),
         Typedef_update (CustomMetadata updated_definition) None],
        None, [CustomMetadata updated_definition])"
proof -
  have g: "get_custom_metadata_def catalog_sdk [CustomMetadata example_definition]
             (item_name icon_item) = Inr example_definition"
    by (simp add: catalog_sdk_def icon_item_def example_item_def example_definition_def)
  have a: "item_attributes icon_item = Some example_desired"
    by (simp add: icon_item_def example_item_def)
  have r: "reconcile (asset_search catalog_sdk [CustomMetadata example_definition])
             (attribute_defs example_definition) example_desired = Inr example_reconciled"
    by (simp add: example_definition_def reconcile_example)
  have "process_item catalog_sdk [CustomMetadata example_definition] icon_item =
       ([Get_def (Some ''Governance''), Print (Updating ''Governance''),
         Typedef_update (CustomMetadata updated_definition) None],
        None, [CustomMetadata updated_definition])"
    unfolding process_item_found [OF g] update_path_Inr [OF a r]
    by (simp add: updated_definition_def catalog_sdk_def example_definition_def icon_item_def
        example_item_def)
  then show ?thesis by (simp add: icon_item_def)
qed

text \<open>
  C8 (amended). For every custom-metadata item with an \<^verbatim>\<open>"icon"\<close> or an \<^verbatim>\<open>"emoji"\<close> key
  whose definition is not found, no create and no update call is issued and the catalog is
  left as it was; when the item has a name and its attributes can be built, the item is
  skipped and the loop goes on.
\<close>

theorem icon_emoji_skipped_on_create:
  assumes "item_icon item \<noteq> None \<or> item_emoji item \<noteq> None"
    and "get_custom_metadata_def client s (item_name item) = Inl NotFoundError"
  shows "(\<forall>ev\<in>set (fst (process_item client s item)). \<not> is_write ev)
       \<and> snd (snd (process_item client s item)) = s
       \<and> (\<forall>name attrs defs.
             item_name item = Some name \<and> item_attributes item = Some attrs
             \<and> create_loop (asset_search client s) attrs [] = Inr defs
             \<longrightarrow> process_item client s item
                   = ([Get_def (Some name), Print (Creating name)], None, s))"
proof -
  note p = process_item_not_found [OF assms(2)]
  have "\<forall>ev\<in>set (fst (process_item client s item)). \<not> is_write ev"
    using create_path_skipped [OF assms(1), of client s] by (simp add: p)
  moreover have "snd (snd (process_item client s item)) = s"
    using create_path_skipped [OF assms(1), of client s] by (simp add: p)
  moreover have "process_item client s item = ([Get_def (Some name), Print (Creating name)], None, s)"
    if "item_name item = Some name" "item_attributes item = Some attrs"
      "create_loop (asset_search client s) attrs [] = Inr defs" for name attrs defs
    using create_path_stub [OF that assms(1)] that(1) by (simp add: p)
  ultimately show ?thesis by blast
qed

theorem icon_emoji_skipped_on_create_witness:
  "item_icon icon_item = Some ''PhBag''
   \<and> get_custom_metadata_def catalog_sdk [] (item_name icon_item) = Inl NotFoundError
   \<and> process_item catalog_sdk [] icon_item
       = ([Get_def (Some ''Governance''), Print (Creating ''Governance'')], None, [])"
proof -
  have i: "item_icon icon_item \<noteq> None \<or> item_emoji icon_item \<noteq> None"
    by (simp add: icon_item_def)
  have g: "get_custom_metadata_def catalog_sdk [] (item_name icon_item) = Inl NotFoundError"
    by (simp add: catalog_sdk_def icon_item_def example_item_def)
  have n: "item_name icon_item = Some ''Governance''"
    and a: "item_attributes icon_item = Some example_desired"
    by (simp_all add: icon_item_def example_item_def)
  have c: "create_loop (asset_search catalog_sdk []) example_desired [] = Inr example_reconciled"
    by (rule create_loop_example)
  from icon_emoji_skipped_on_create [OF i g] n a c
  have "process_item catalog_sdk [] icon_item
       = ([Get_def (Some ''Governance''), Print (Creating ''Governance'')], None, [])"
    by blast
  with g show ?thesis by (simp add: icon_item_def)
qed

section \<open>Malformed entries\<close>

text \<open>
  C4 (as stated, refuted). The definition \<open>Governance\<close> exists with the attributes \<open>A\<close>
  and \<open>B\<close>; the config entry gives \<open>B\<close> the type \<^verbatim>\<open>"unknown"\<close>. The update branch
  only overwrites the scopes of a matched attribute and never reads its type: no error is
  raised and the update call is issued.
\<close>

theorem unknown_type_updated_counterexample:
  "dict_get unknown_type_desired ''B''
     = Some ((on_asset_types [''Column''])\<lparr>cfg_type := Some ''unknown''\<rparr>)
   \<and> mapping_get (Some ''unknown'') = None
   \<and> process_item catalog_sdk [CustomMetadata example_definition] unknown_type_item =
       ([Get_def (Some ''Governance''), Print (Updating ''Governance''),
         Typedef_update
           (CustomMetadata (example_definition\<lparr>attribute_defs := [text_attribute ''B'' {''Column''}]\<rparr>))
           None],
        None,
        [CustomMetadata (example_definition\<lparr>attribute_defs := [text_attribute ''B'' {''Column''}]\<rparr>)])"
proof -
  have g: "get_custom_metadata_def catalog_sdk [CustomMetadata example_definition]
             (item_name unknown_type_item) = Inr example_definition"
    by (simp add: catalog_sdk_def unknown_type_item_def example_item_def example_definition_def)
  have a: "item_attributes unknown_type_item = Some unknown_type_desired"
    by (simp add: unknown_type_item_def example_item_def)
  have r: "reconcile (asset_search catalog_sdk [CustomMetadata example_definition])
             (attribute_defs example_definition) unknown_type_desired
           = Inr [text_attribute ''B'' {''Column''}]"
    by (simp add: example_definition_def reconcile_unknown_type_example)
  have t: "dict_get unknown_type_desired ''B''
     = Some ((on_asset_types [''Column''])\<lparr>cfg_type := Some ''unknown''\<rparr>)
   \<and> mapping_get (Some ''unknown'') = None"
    by (simp add: unknown_type_desired_def dict_get_def mapping_get_unknown)
  show ?thesis
    unfolding process_item_found [OF g] update_path_Inr [OF a r]
    using t
    by (simp add: catalog_sdk_def example_definition_def unknown_type_item_def example_item_def)
qed

text \<open>
  C4 (amended). The script validates nothing itself. An item fails, with an exception that
  ends the run before any create or update call for it and leaves the catalog as it was, in
  these cases: its \<^verbatim>\<open>name\<close> is missing and the existence check returns no definition
  (\<^verbatim>\<open>"Creating " + None\<close> raises, or the check itself did); or one of its desired
  attributes has a type outside the table and has to be built anew, because no definition is
  found or the found definition has no attribute of that display name (the type table yields
  \<^verbatim>\<open>None\<close>, which the attribute constructor rejects). The items after it are not processed.
\<close>

theorem malformed_entry_aborts:
  assumes "(item_name item = None
            \<and> (\<forall>d. get_custom_metadata_def client s (item_name item) \<noteq> Inr d))
         \<or> (\<exists>attrs p. item_attributes item = Some attrs \<and> p \<in> set attrs
              \<and> mapping_get (cfg_type (snd p)) = None
              \<and> (\<forall>d. get_custom_metadata_def client s (item_name item) = Inr d
                     \<longrightarrow> fst p \<notin> display_name ` set (attribute_defs d)))"
  shows "(\<exists>err. fst (snd (process_item client s item)) = Some err)
       \<and> (\<forall>ev\<in>set (fst (process_item client s item)). \<not> is_write ev)
       \<and> snd (snd (process_item client s item)) = s
       \<and> main_loop client s (item # rest) = process_item client s item"
proof -
  have abort: "\<exists>evs err. process_item client s item = (evs, Some err, s)
                 \<and> (\<forall>ev\<in>set evs. \<not> is_write ev)"
  proof (cases "get_custom_metadata_def client s (item_name item)")
    case (Inl e)
    show ?thesis
    proof (cases "e = NotFoundError")
      case False
      then show ?thesis using Inl by (simp add: process_item_other_error)
    next
      case True
      then have p: "process_item client s item =
         (Get_def (item_name item) # fst (create_path client s item),
          fst (snd (create_path client s item)), snd (snd (create_path client s item)))"
        using Inl by (simp add: process_item_not_found)
      from assms have "\<exists>evs err. create_path client s item = (evs, Some err, s)
                         \<and> (\<forall>ev\<in>set evs. \<not> is_write ev)"
      proof
        assume "item_name item = None
            \<and> (\<forall>d. get_custom_metadata_def client s (item_name item) \<noteq> Inr d)"
        then show ?thesis by (simp add: create_path_no_name)
      next
        assume "\<exists>attrs p. item_attributes item = Some attrs \<and> p \<in> set attrs
              \<and> mapping_get (cfg_type (snd p)) = None
              \<and> (\<forall>d. get_custom_metadata_def client s (item_name item) = Inr d
                     \<longrightarrow> fst p \<notin> display_name ` set (attribute_defs d))"
        then obtain attrs q where "item_attributes item = Some attrs" and "q \<in> set attrs"
          and "mapping_get (cfg_type (snd q)) = None" by blast
        then show ?thesis by (rule create_path_unknown_type)
      qed
      then show ?thesis using p by auto
    qed
  next
    case (Inr existing)
    with assms obtain attrs p where a: "item_attributes item = Some attrs"
      and pin: "p \<in> set attrs" and ty: "mapping_get (cfg_type (snd p)) = None"
      and new: "fst p \<notin> display_name ` set (attribute_defs existing)"
      by auto
    from reconcile_unknown_type [OF pin new ty]
    obtain err where "reconcile (asset_search client s) (attribute_defs existing) attrs = Inl err"
      by blast
    from update_path_Inl [OF a this] show ?thesis
      using Inr by (simp add: process_item_found)
  qed
  then obtain evs err where p: "process_item client s item = (evs, Some err, s)"
    and w: "\<forall>ev\<in>set evs. \<not> is_write ev" by blast
  show ?thesis using w by (simp add: p)
qed

theorem malformed_entry_aborts_witness:
  "get_custom_metadata_def catalog_sdk [] (item_name unknown_type_new_item) = Inl NotFoundError
   \<and> item_attributes unknown_type_new_item
       = Some [(''Score'', plain_config\<lparr>cfg_type := Some ''unknown''\<rparr>)]
   \<and> mapping_get (cfg_type (plain_config\<lparr>cfg_type := Some ''unknown''\<rparr>)) = None
   \<and> process_item catalog_sdk [] unknown_type_new_item
       = ([Get_def (Some ''Quality''), Print (Creating ''Quality'')],
          Some (ValueError ''attribute_type is required''), [])
   \<and> main_loop catalog_sdk [] [unknown_type_new_item, example_item]
       = process_item catalog_sdk [] unknown_type_new_item"
proof -
  let ?p = "(''Score'', plain_config\<lparr>cfg_type := Some ''unknown''\<rparr>)"
  have g: "get_custom_metadata_def catalog_sdk [] (item_name unknown_type_new_item)
             = Inl NotFoundError"
    by (simp add: catalog_sdk_def unknown_type_new_item_def)
  have a: "item_attributes unknown_type_new_item = Some [?p]"
    by (simp add: unknown_type_new_item_def)
  have ty: "mapping_get (cfg_type (snd ?p)) = None"
    by (simp add: mapping_get_unknown)
  have h: "(item_name unknown_type_new_item = None
            \<and> (\<forall>d. get_custom_metadata_def catalog_sdk [] (item_name unknown_type_new_item) \<noteq> Inr d))
         \<or> (\<exists>attrs p. item_attributes unknown_type_new_item = Some attrs \<and> p \<in> set attrs
              \<and> mapping_get (cfg_type (snd p)) = None
              \<and> (\<forall>d. get_custom_metadata_def catalog_sdk [] (item_name unknown_type_new_item) = Inr d
                     \<longrightarrow> fst p \<notin> display_name ` set (attribute_defs d)))"
    using g a ty by auto
  have n: "item_name unknown_type_new_item = Some ''Quality''"
    by (simp add: unknown_type_new_item_def)
  have c: "create_loop (asset_search catalog_sdk []) [?p] []
             = Inl (ValueError ''attribute_type is required'')"
    by (simp add: new_attribute_unfold plain_config_def live_scope_rule_def
        AttributeDef_create_def mapping_get_unknown)
  have p: "process_item catalog_sdk [] unknown_type_new_item
       = ([Get_def (Some ''Quality''), Print (Creating ''Quality'')],
          Some (ValueError ''attribute_type is required''), [])"
    unfolding process_item_not_found [OF g] create_path_Inl [OF n a c] by (simp add: n)
  from malformed_entry_aborts [OF h, of "[example_item]"] g a ty p
  show ?thesis by simp
qed

section \<open>Routing by the existence check\<close>

text \<open>
  C7 (as stated, refuted). An outcome of the existence check that is neither "not found" nor
  a definition, here a denied request, does not route to update: only \<^verbatim>\<open>NotFoundError\<close> is
  caught, the exception leaves the loop, and no create or update call is made.
\<close>

theorem denied_check_counterexample:
  "get_custom_metadata_def denying_sdk [CustomMetadata example_definition] (item_name example_item)
     = Inl (RemoteError ''permission denied'')
   \<and> process_item denying_sdk [CustomMetadata example_definition] example_item
       = ([Get_def (Some ''Governance'')], Some (RemoteError ''permission denied''),
          [CustomMetadata example_definition])"
proof -
  have g: "get_custom_metadata_def denying_sdk [CustomMetadata example_definition]
             (item_name example_item) = Inl (RemoteError ''permission denied'')"
    by (simp add: denying_sdk_def)
  have "RemoteError ''permission denied'' \<noteq> NotFoundError" by simp
  from process_item_other_error [OF g this] g show ?thesis
    by (simp add: example_item_def)
qed

text \<open>
  C7 (amended). In \<^verbatim>\<open>cm_generator.py\<close> and in \<^verbatim>\<open>options_generator.py\<close>: a "not found"
  answer of the existence check is no error and routes the item to the create path (no update
  call; the create call is issued once the definition is built); a definition that is
  returned routes it to the update path (no create call; the update call is issued once the
  definition is built); any other exception of the check is not caught and ends the run with
  neither call.
\<close>

theorem existence_check_routing:
  "(get_custom_metadata_def client s (item_name item) = Inl NotFoundError \<longrightarrow>
      (\<forall>ev\<in>set (fst (process_item client s item)). \<not> is_update ev)
      \<and> (\<forall>name attrs defs.
            item_name item = Some name \<and> item_attributes item = Some attrs
            \<and> create_loop (asset_search client s) attrs [] = Inr defs
            \<and> item_icon item = None \<and> item_emoji item = None
            \<longrightarrow> (\<exists>r. Typedef_create
                       (CustomMetadata \<lparr>cm_display_name = name, attribute_defs = defs,
                          cm_options = Some (''BAG_SIMPLE'', ''YELLOW'')\<rparr>) r
                     \<in> set (fst (process_item client s item)))))
   \<and> (\<forall>existing. get_custom_metadata_def client s (item_name item) = Inr existing \<longrightarrow>
      (\<forall>ev\<in>set (fst (process_item client s item)). \<not> is_create ev)
      \<and> (\<forall>attrs defs.
            item_attributes item = Some attrs
            \<and> reconcile (asset_search client s) (attribute_defs existing) attrs = Inr defs
            \<longrightarrow> (\<exists>r. Typedef_update (CustomMetadata (existing\<lparr>attribute_defs := defs\<rparr>)) r
                     \<in> set (fst (process_item client s item)))))
   \<and> (\<forall>err. get_custom_metadata_def client s (item_name item) = Inl err \<and> err \<noteq> NotFoundError
        \<longrightarrow> process_item client s item = ([Get_def (item_name item)], Some err, s))
   \<and> (get_by_name client s (enum_item_name eitem) = Inl NotFoundError \<longrightarrow>
      (\<forall>ev\<in>set (fst (process_enum_item client s eitem)). \<not> is_update ev)
      \<and> (enum_item_name eitem \<noteq> None
           \<longrightarrow> (\<exists>r. Typedef_create
                      (Enum (EnumDef_create (enum_item_name eitem) (enum_item_values eitem))) r
                    \<in> set (fst (process_enum_item client s eitem)))))
   \<and> (\<forall>num_def. get_by_name client s (enum_item_name eitem) = Inr num_def \<longrightarrow>
      (\<forall>ev\<in>set (fst (process_enum_item client s eitem)). \<not> is_create ev)
      \<and> (enum_name num_def \<noteq> None
           \<longrightarrow> (\<exists>r. Typedef_update
                      (Enum (EnumDef_update (enum_item_name eitem) (enum_item_values eitem) True)) r
                    \<in> set (fst (process_enum_item client s eitem)))))
   \<and> (\<forall>err. get_by_name client s (enum_item_name eitem) = Inl err \<and> err \<noteq> NotFoundError
        \<longrightarrow> process_enum_item client s eitem = ([Get_def (enum_item_name eitem)], Some err, s))"
proof (intro conjI impI allI)
  assume g: "get_custom_metadata_def client s (item_name item) = Inl NotFoundError"
  show "\<forall>ev\<in>set (fst (process_item client s item)). \<not> is_update ev"
    using create_path_no_update [of _ client s item] by (auto simp: process_item_not_found [OF g])
  fix name attrs defs
  assume "item_name item = Some name \<and> item_attributes item = Some attrs
            \<and> create_loop (asset_search client s) attrs [] = Inr defs
            \<and> item_icon item = None \<and> item_emoji item = None"
  then have n: "item_name item = Some name" and a: "item_attributes item = Some attrs"
    and c: "create_loop (asset_search client s) attrs [] = Inr defs"
    and i: "item_icon item = None" and e: "item_emoji item = None"
    by simp_all
  note create_path_Inr [OF n a c i e]
  then show "\<exists>r. Typedef_create
                       (CustomMetadata \<lparr>cm_display_name = name, attribute_defs = defs,
                          cm_options = Some (''BAG_SIMPLE'', ''YELLOW'')\<rparr>) r
                     \<in> set (fst (process_item client s item))"
    by (auto simp: process_item_not_found [OF g])
next
  fix existing
  assume g: "get_custom_metadata_def client s (item_name item) = Inr existing"
  show "\<forall>ev\<in>set (fst (process_item client s item)). \<not> is_create ev"
    using update_path_no_create [of _ client s existing item]
    by (auto simp: process_item_found [OF g])
  fix attrs defs
  assume "item_attributes item = Some attrs
            \<and> reconcile (asset_search client s) (attribute_defs existing) attrs = Inr defs"
  then have a: "item_attributes item = Some attrs"
    and r: "reconcile (asset_search client s) (attribute_defs existing) attrs = Inr defs"
    by simp_all
  show "\<exists>r. Typedef_update (CustomMetadata (existing\<lparr>attribute_defs := defs\<rparr>)) r
                     \<in> set (fst (process_item client s item))"
    by (auto simp: process_item_found [OF g] update_path_Inr [OF a r])
next
  fix err
  assume "get_custom_metadata_def client s (item_name item) = Inl err \<and> err \<noteq> NotFoundError"
  then show "process_item client s item = ([Get_def (item_name item)], Some err, s)"
    by (simp add: process_item_other_error)
next
  assume g: "get_by_name client s (enum_item_name eitem) = Inl NotFoundError"
  show "\<forall>ev\<in>set (fst (process_enum_item client s eitem)). \<not> is_update ev"
    by (auto simp: process_enum_item_not_found [OF g] split: option.splits)
  assume "enum_item_name eitem \<noteq> None"
  then show "\<exists>r. Typedef_create
                      (Enum (EnumDef_create (enum_item_name eitem) (enum_item_values eitem))) r
                    \<in> set (fst (process_enum_item client s eitem))"
    by (auto simp: process_enum_item_not_found [OF g])
next
  fix num_def
  assume g: "get_by_name client s (enum_item_name eitem) = Inr num_def"
  show "\<forall>ev\<in>set (fst (process_enum_item client s eitem)). \<not> is_create ev"
    by (auto simp: process_enum_item_found [OF g] split: option.splits)
  assume "enum_name num_def \<noteq> None"
  then show "\<exists>r. Typedef_update
                      (Enum (EnumDef_update (enum_item_name eitem) (enum_item_values eitem) True)) r
                    \<in> set (fst (process_enum_item client s eitem))"
    by (auto simp: process_enum_item_found [OF g])
next
  fix err
  assume "get_by_name client s (enum_item_name eitem) = Inl err \<and> err \<noteq> NotFoundError"
  then show "process_enum_item client s eitem = ([Get_def (enum_item_name eitem)], Some err, s)"
    by (simp add: process_enum_item_other_error)
qed

theorem existence_check_routing_witness:
  "get_custom_metadata_def catalog_sdk [] (item_name example_item) = Inl NotFoundError
   \<and> (\<exists>r. Typedef_create
            (CustomMetadata \<lparr>cm_display_name = ''Governance'', attribute_defs = example_reconciled,
               cm_options = Some (''BAG_SIMPLE'', ''YELLOW'')\<rparr>) r
          \<in> set (fst (process_item catalog_sdk [] example_item)))
   \<and> get_custom_metadata_def catalog_sdk [CustomMetadata example_definition]
         (item_name example_item) = Inr example_definition
   \<and> (\<exists>r. Typedef_update (CustomMetadata updated_definition) r
          \<in> set (fst (process_item catalog_sdk [CustomMetadata example_definition] example_item)))
   \<and> get_custom_metadata_def denying_sdk [] (item_name example_item)
        = Inl (RemoteError ''permission denied'')
   \<and> process_item denying_sdk [] example_item
        = ([Get_def (item_name example_item)], Some (RemoteError ''permission denied''), [])
   \<and> get_by_name catalog_sdk [] (enum_item_name example_enum_item) = Inl NotFoundError
   \<and> (\<exists>r. Typedef_create
            (Enum (EnumDef_create (enum_item_name example_enum_item)
                     (enum_item_values example_enum_item))) r
          \<in> set (fst (process_enum_item catalog_sdk [] example_enum_item)))"
proof -
  have n: "item_name example_item = Some ''Governance''"
    and a: "item_attributes example_item = Some example_desired"
    and i: "item_icon example_item = None" and e: "item_emoji example_item = None"
    by (simp_all add: example_item_def)
  have g1: "get_custom_metadata_def catalog_sdk [] (item_name example_item) = Inl NotFoundError"
    by (simp add: catalog_sdk_def example_item_def)
  have c: "create_loop (asset_search catalog_sdk []) example_desired [] = Inr example_reconciled"
    by (rule create_loop_example)
  have 1: "\<exists>r. Typedef_create
            (CustomMetadata \<lparr>cm_display_name = ''Governance'', attribute_defs = example_reconciled,
               cm_options = Some (''BAG_SIMPLE'', ''YELLOW'')\<rparr>) r
          \<in> set (fst (process_item catalog_sdk [] example_item))"
    using existence_check_routing [of catalog_sdk "[]" example_item example_enum_item]
      g1 n a c i e by blast
  have g2: "get_custom_metadata_def catalog_sdk [CustomMetadata example_definition]
         (item_name example_item) = Inr example_definition"
    by (simp add: catalog_sdk_def example_item_def example_definition_def)
  have r: "reconcile (asset_search catalog_sdk [CustomMetadata example_definition])
             (attribute_defs example_definition) example_desired = Inr example_reconciled"
    by (simp add: example_definition_def reconcile_example)
  have 2: "\<exists>r. Typedef_update (CustomMetadata updated_definition) r
          \<in> set (fst (process_item catalog_sdk [CustomMetadata example_definition] example_item))"
    using existence_check_routing
      [of catalog_sdk "[CustomMetadata example_definition]" example_item example_enum_item]
      g2 a r unfolding updated_definition_def by blast
  have g3: "get_custom_metadata_def denying_sdk [] (item_name example_item)
        = Inl (RemoteError ''permission denied'')"
    by (simp add: denying_sdk_def)
  have "RemoteError ''permission denied'' \<noteq> NotFoundError" by simp
  then have 3: "process_item denying_sdk [] example_item
        = ([Get_def (item_name example_item)], Some (RemoteError ''permission denied''), [])"
    using existence_check_routing [of denying_sdk "[]" example_item example_enum_item] g3
    by blast
  have g4: "get_by_name catalog_sdk [] (enum_item_name example_enum_item) = Inl NotFoundError"
    by (simp add: catalog_sdk_def example_enum_item_def)
  have "enum_item_name example_enum_item \<noteq> None" by (simp add: example_enum_item_def)
  then have 4: "\<exists>r. Typedef_create
            (Enum (EnumDef_create (enum_item_name example_enum_item)
                     (enum_item_values example_enum_item))) r
          \<in> set (fst (process_enum_item catalog_sdk [] example_enum_item))"
    using existence_check_routing [of catalog_sdk "[]" example_item example_enum_item] g4
    by blast
  from g1 1 g2 2 g3 3 g4 4 show ?thesis by blast
qed

section \<open>Errors of one item\<close>

text \<open>
  C5 (as stated, refuted). In \<^verbatim>\<open>cm_generator.py\<close> a remote error of the create call is not
  caught: with two items in the file and a catalog whose create call fails, the exception
  ends the script at the first item; the second item is never looked up, and no summary is
  printed.
\<close>

theorem remote_error_ends_cm_run_counterexample:
  "cm_generator_main Map.empty failing_create_sdk example_json [] ''metadata.json'' =
     ([File_open ''metadata.json'', Client_init [] [],
       Get_def (Some ''Governance''), Print (Creating ''Governance''),
       Typedef_create (CustomMetadata governance_definition) (Some (RemoteError ''server error''))],
      Raised (RemoteError ''server error''), [])"
  by (simp add: cm_generator_main_def load_json_from_file_def example_json_def
      main_loop_failing_create_example del: main_loop.simps)

text \<open>
  C5 (amended). In \<^verbatim>\<open>createTags.py\<close>, for every list of tag entries that each have a
  type and a name: the script ends normally with its summary, whatever the create calls
  answer; every entry is processed and reports its outcome with one message; every create
  call that raised is followed in the trace by the error message for that tag; and the
  summary counts and lists exactly the tags whose create call returned (and whose name is
  not empty), in order. In \<^verbatim>\<open>cm_generator.py\<close> and \<^verbatim>\<open>options_generator.py\<close> an error of
  a create or update call is not caught: it ends the loop at that item.
\<close>

theorem tag_errors_logged_and_skipped:
  "(fs ''tag_template.yaml'' = Inr (Some cfgs)
      \<and> (\<forall>cfg\<in>set cfgs. tag_type cfg \<noteq> None \<and> tag_name cfg \<noteq> None) \<longrightarrow>
      (\<exists>evs s'.
         createTags_main tenant api_key client fs s =
           (Client_init tenant api_key # File_open ''tag_template.yaml'' # evs
              @ Print (Successfully_created
                         (length (filter (\<lambda>n. n \<noteq> []) (created_names evs))))
              # map (\<lambda>tag. Print (Created_line tag))
                    (filter (\<lambda>n. n \<noteq> []) (created_names evs)),
            Finished, s')
         \<and> length (filter is_outcome_message evs) = length cfgs
         \<and> (\<forall>td e. Typedef_create (Tag td) (Some e) \<in> set evs
               \<longrightarrow> Print (Error_creating_tag (tag_def_name td) e) \<in> set evs)))
   \<and> (\<forall>t e. Typedef_create t (Some e) \<in> set (fst (process_item client s item))
            \<or> Typedef_update t (Some e) \<in> set (fst (process_item client s item)) \<longrightarrow>
          fst (snd (process_item client s item)) = Some e
          \<and> main_loop client s (item # rest) = process_item client s item)
   \<and> (\<forall>t e. Typedef_create t (Some e) \<in> set (fst (process_enum_item client s eitem))
            \<or> Typedef_update t (Some e) \<in> set (fst (process_enum_item client s eitem)) \<longrightarrow>
          fst (snd (process_enum_item client s eitem)) = Some e
          \<and> enum_loop client s (eitem # erest) = process_enum_item client s eitem)"
proof (intro conjI impI allI)
  assume a: "fs ''tag_template.yaml'' = Inr (Some cfgs)
      \<and> (\<forall>cfg\<in>set cfgs. tag_type cfg \<noteq> None \<and> tag_name cfg \<noteq> None)"
  then have wf: "\<forall>cfg\<in>set cfgs. tag_type cfg \<noteq> None \<and> tag_name cfg \<noteq> None" by simp
  from tags_loop_wf [OF wf, of client s "[]"]
  obtain evs s' where l: "tags_loop client s cfgs []
            = (evs, Inr (filter (\<lambda>n. n \<noteq> []) (created_names evs)), s')"
    and cnt: "length (filter is_outcome_message evs) = length cfgs"
    and logged: "\<forall>td e. Typedef_create (Tag td) (Some e) \<in> set evs
                \<longrightarrow> Print (Error_creating_tag (tag_def_name td) e) \<in> set evs"
    by auto
  have "createTags_main tenant api_key client fs s =
             (Client_init tenant api_key # File_open ''tag_template.yaml'' # evs
                @ Print (Successfully_created
                           (length (filter (\<lambda>n. n \<noteq> []) (created_names evs))))
                # map (\<lambda>tag. Print (Created_line tag))
                      (filter (\<lambda>n. n \<noteq> []) (created_names evs)),
              Finished, s')"
    using a l by (simp add: createTags_main_def load_tag_config_def)
  with cnt logged show "\<exists>evs s'.
         createTags_main tenant api_key client fs s =
           (Client_init tenant api_key # File_open ''tag_template.yaml'' # evs
              @ Print (Successfully_created
                         (length (filter (\<lambda>n. n \<noteq> []) (created_names evs))))
              # map (\<lambda>tag. Print (Created_line tag))
                    (filter (\<lambda>n. n \<noteq> []) (created_names evs)),
            Finished, s')
         \<and> length (filter is_outcome_message evs) = length cfgs
         \<and> (\<forall>td e. Typedef_create (Tag td) (Some e) \<in> set evs
               \<longrightarrow> Print (Error_creating_tag (tag_def_name td) e) \<in> set evs)"
    by blast
next
  fix t e
  assume w: "Typedef_create t (Some e) \<in> set (fst (process_item client s item))
            \<or> Typedef_update t (Some e) \<in> set (fst (process_item client s item))"
  then show r: "fst (snd (process_item client s item)) = Some e"
    by (rule process_item_write_error)
  then show "main_loop client s (item # rest) = process_item client s item"
    by (rule main_loop_abort)
next
  fix t e
  assume w: "Typedef_create t (Some e) \<in> set (fst (process_enum_item client s eitem))
            \<or> Typedef_update t (Some e) \<in> set (fst (process_enum_item client s eitem))"
  then show r: "fst (snd (process_enum_item client s eitem)) = Some e"
    by (rule process_enum_item_write_error)
  then show "enum_loop client s (eitem # erest) = process_enum_item client s eitem"
    by (rule enum_loop_abort)
qed

theorem tag_errors_logged_and_skipped_witness:
  "example_yaml ''tag_template.yaml'' = Inr (Some [color_tag, color_tag, emoji_tag])
   \<and> tag_name color_tag = Some ''Critical'' \<and> tag_type color_tag = Some ''color''
   \<and> tag_name emoji_tag = Some ''PII'' \<and> tag_type emoji_tag = Some ''emoji''
   \<and> (\<exists>evs s'.
        createTags_main ''https://tenant'' ''key'' catalog_sdk example_yaml [] =
          (Client_init ''https://tenant'' ''key'' # File_open ''tag_template.yaml'' # evs
             @ Print (Successfully_created
                        (length (filter (\<lambda>n. n \<noteq> []) (created_names evs))))
             # map (\<lambda>tag. Print (Created_line tag))
                   (filter (\<lambda>n. n \<noteq> []) (created_names evs)),
           Finished, s')
        \<and> length (filter is_outcome_message evs) = 3)
   \<and> createTags_main ''https://tenant'' ''key'' catalog_sdk example_yaml [] =
       ([Client_init ''https://tenant'' ''key'', File_open ''tag_template.yaml'',
         Typedef_create (Tag critical_def) None, Print (Created_tag ''color'' ''Critical''),
         Typedef_create (Tag critical_def) (Some (RemoteError ''already exists'')),
         Print (Error_creating_tag ''Critical'' (RemoteError ''already exists'')),
         Typedef_create (Tag pii_def) None, Print (Created_tag ''emoji'' ''PII''),
         Print (Successfully_created 2), Print (Created_line ''Critical''),
         Print (Created_line ''PII'')],
        Finished, [Tag critical_def, Tag pii_def])"
proof -
  have y: "example_yaml ''tag_template.yaml'' = Inr (Some [color_tag, color_tag, emoji_tag])"
    by (simp add: example_yaml_def)
  have c: "tag_name color_tag = Some ''Critical''" "tag_type color_tag = Some ''color''"
    by (simp_all add: color_tag_def)
  have e: "tag_name emoji_tag = Some ''PII''" "tag_type emoji_tag = Some ''emoji''"
    by (simp_all add: emoji_tag_def)
  have wf: "\<forall>cfg\<in>set [color_tag, color_tag, emoji_tag]. tag_type cfg \<noteq> None \<and> tag_name cfg \<noteq> None"
    using c e by simp
  have 1: "\<exists>evs s'.
        createTags_main ''https://tenant'' ''key'' catalog_sdk example_yaml [] =
          (Client_init ''https://tenant'' ''key'' # File_open ''tag_template.yaml'' # evs
             @ Print (Successfully_created
                        (length (filter (\<lambda>n. n \<noteq> []) (created_names evs))))
             # map (\<lambda>tag. Print (Created_line tag))
                   (filter (\<lambda>n. n \<noteq> []) (created_names evs)),
           Finished, s')
        \<and> length (filter is_outcome_message evs) = 3"
    using mp [OF conjunct1 [OF tag_errors_logged_and_skipped
      [where fs = example_yaml and cfgs = "[color_tag, color_tag, emoji_tag]"
         and tenant = "''https://tenant''" and api_key = "''key''"
         and client = catalog_sdk and s = "[]"]] conjI [OF y wf]]
    by (auto simp: numeral_3_eq_3)
  have 2: "createTags_main ''https://tenant'' ''key'' catalog_sdk example_yaml [] =
       ([Client_init ''https://tenant'' ''key'', File_open ''tag_template.yaml'',
         Typedef_create (Tag critical_def) None, Print (Created_tag ''color'' ''Critical''),
         Typedef_create (Tag critical_def) (Some (RemoteError ''already exists'')),
         Print (Error_creating_tag ''Critical'' (RemoteError ''already exists'')),
         Typedef_create (Tag pii_def) None, Print (Created_tag ''emoji'' ''PII''),
         Print (Successfully_created 2), Print (Created_line ''Critical''),
         Print (Created_line ''PII'')],
        Finished, [Tag critical_def, Tag pii_def])"
    by (simp add: createTags_main_def load_tag_config_def y tags_loop_example
        del: tags_loop.simps)
  from y c e 1 2 show ?thesis by blast
qed

text \<open>
  C10 (as stated, refuted). An entry of type \<^verbatim>\<open>banner\<close> without a \<^verbatim>\<open>name\<close> key:
  \<^verbatim>\<open>tag_config['name']\<close> stands before the \<^verbatim>\<open>try\<close>, so \<^verbatim>\<open>create_tag_from_config\<close> raises
  \<^verbatim>\<open>KeyError\<close> instead of returning \<^verbatim>\<open>None\<close>, nothing is printed by it, and the loop of
  \<^verbatim>\<open>main\<close> ends: the colour tag that follows is never created.
\<close>

theorem nameless_entry_ends_loop_counterexample:
  "tag_type nameless_tag = Some ''banner''
   \<and> create_tag_from_config catalog_sdk [] nameless_tag = ([], Inl (KeyError ''name''), [])
   \<and> createTags_main ''https://tenant'' ''key'' catalog_sdk nameless_yaml [] =
       ([Client_init ''https://tenant'' ''key'', File_open ''tag_template.yaml'',
         Print (An_error_occurred (KeyError ''name''))],
        Finished, [])"
  by (simp add: createTags_main_def load_tag_config_def create_tag_from_config_def
      nameless_yaml_def nameless_tag_def banner_tag_def color_tag_def)

text \<open>
  C10 (amended). For every tag entry that has a name and whose type is present and none of
  \<^verbatim>\<open>color\<close>, \<^verbatim>\<open>emoji\<close>, \<^verbatim>\<open>icon\<close>: \<^verbatim>\<open>create_tag_from_config\<close> makes no create call (the
  variable \<^verbatim>\<open>tag_def\<close> was never assigned, and reading it raises), prints the error message
  from its handler, returns \<^verbatim>\<open>None\<close> and leaves the catalog as it was; the loop goes on
  with the next entry, with the list of created tags unchanged.
\<close>

theorem unknown_tag_type_skipped:
  assumes "tag_type cfg = Some ty"
    and "ty \<noteq> ''color'' \<and> ty \<noteq> ''emoji'' \<and> ty \<noteq> ''icon''"
    and "tag_name cfg = Some n"
  shows "create_tag_from_config client s cfg =
           ([Print (Error_creating_tag n (UnboundLocalError ''tag_def''))], Inr None, s)
       \<and> tags_loop client s (cfg # rest) created =
           (Print (Error_creating_tag n (UnboundLocalError ''tag_def''))
              # fst (tags_loop client s rest created),
            snd (tags_loop client s rest created))"
proof -
  have b: "build_tag_def client ty n cfg = Inr None"
    using assms(2) by (simp add: build_tag_def_other_type)
  have c: "create_tag_from_config client s cfg =
           ([Print (Error_creating_tag n (UnboundLocalError ''tag_def''))], Inr None, s)"
    using assms(1,3) b by (simp add: create_tag_from_config_def)
  then show ?thesis by (simp add: py_not_def split: prod.splits)
qed

theorem unknown_tag_type_skipped_witness:
  "tag_type banner_tag = Some ''banner'' \<and> tag_name banner_tag = Some ''Legacy''
   \<and> create_tag_from_config catalog_sdk [] banner_tag =
       ([Print (Error_creating_tag ''Legacy'' (UnboundLocalError ''tag_def''))], Inr None, [])
   \<and> tags_loop catalog_sdk [] [banner_tag, color_tag] [] =
       ([Print (Error_creating_tag ''Legacy'' (UnboundLocalError ''tag_def'')),
         Typedef_create (Tag critical_def) None, Print (Created_tag ''color'' ''Critical'')],
        Inr [''Critical''], [Tag critical_def])"
proof -
  have t: "tag_type banner_tag = Some ''banner''" and n: "tag_name banner_tag = Some ''Legacy''"
    by (simp_all add: banner_tag_def color_tag_def)
  have o: "''banner'' \<noteq> ''color'' \<and> ''banner'' \<noteq> ''emoji'' \<and> ''banner'' \<noteq> ''icon''"
    by simp
  have r: "tags_loop catalog_sdk [] [color_tag] [] =
       ([Typedef_create (Tag critical_def) None, Print (Created_tag ''color'' ''Critical'')],
        Inr [''Critical''], [Tag critical_def])"
    by (simp add: create_color_tag_example py_not_def)
  from unknown_tag_type_skipped [OF t o n, of catalog_sdk "[]" "[color_tag]" "[]"] t n
  show ?thesis by (simp add: r del: tags_loop.simps)
qed

section \<open>The environment\<close>

text \<open>
  C6 (as stated, refuted). \<^verbatim>\<open>cm_generator.py\<close> with no environment variable set: the
  script opens the input file, constructs the client with two empty strings, checks for the
  definition and creates it. It never reads \<^verbatim>\<open>ATLAN_API_KEY\<close> or \<^verbatim>\<open>ATLAN_TENANT\<close>.
\<close>

theorem cm_generator_ignores_environment_counterexample:
  "cm_generator_main Map.empty catalog_sdk single_json [] ''metadata.json'' =
     ([File_open ''metadata.json'', Client_init [] [],
       Get_def (Some ''Governance''), Print (Creating ''Governance''),
       Typedef_create (CustomMetadata governance_definition) None,
       Print Script_finished],
      Finished, [CustomMetadata governance_definition])"
  by (simp add: cm_generator_main_def load_json_from_file_def single_json_def
      process_item_create_example governance_definition_def)

text \<open>
  C6 (amended). In \<^verbatim>\<open>createTags.py\<close> the environment variables \<^verbatim>\<open>ATLAN_API_KEY\<close> and
  \<^verbatim>\<open>ATLAN_TENANT\<close> configure the client, and if either is unset or empty the script aborts
  with \<^verbatim>\<open>ValueError\<close> before any work: no file is opened, no client is constructed and no
  remote call is made. \<^verbatim>\<open>cm_generator.py\<close> and \<^verbatim>\<open>options_generator.py\<close> run the same
  whatever the environment holds: they load the input file first and then construct the
  client with an empty base URL and an empty API key.
\<close>

theorem environment_check:
  "(py_not (env ''ATLAN_API_KEY'') \<or> py_not (env ''ATLAN_TENANT'') \<longrightarrow>
      createTags_script env client yfs s =
        ([], Raised (ValueError
               ''Please set ATLAN_API_KEY and ATLAN_TENANT environment variables''), s))
   \<and> (\<forall>api_key tenant.
         env ''ATLAN_API_KEY'' = Some api_key \<and> api_key \<noteq> []
         \<and> env ''ATLAN_TENANT'' = Some tenant \<and> tenant \<noteq> [] \<longrightarrow>
         createTags_script env client yfs s = createTags_main tenant api_key client yfs s
         \<and> hd (fst (createTags_script env client yfs s)) = Client_init tenant api_key)
   \<and> cm_generator_main env client jfs s path = cm_generator_main Map.empty client jfs s path
   \<and> options_generator_main env client efs s path
       = options_generator_main Map.empty client efs s path
   \<and> (\<forall>data. jfs path = Json data \<longrightarrow>
         take 2 (fst (cm_generator_main env client jfs s path))
           = [File_open path, Client_init [] []])
   \<and> (\<forall>data. efs path = Json data \<longrightarrow>
         take 2 (fst (options_generator_main env client efs s path))
           = [File_open path, Client_init [] []])"
proof (intro conjI impI allI)
  assume "py_not (env ''ATLAN_API_KEY'') \<or> py_not (env ''ATLAN_TENANT'')"
  then show "createTags_script env client yfs s =
        ([], Raised (ValueError
               ''Please set ATLAN_API_KEY and ATLAN_TENANT environment variables''), s)"
    by (auto simp: createTags_script_def Let_def)
next
  fix api_key tenant
  assume h: "env ''ATLAN_API_KEY'' = Some api_key \<and> api_key \<noteq> []
         \<and> env ''ATLAN_TENANT'' = Some tenant \<and> tenant \<noteq> []"
  then show m: "createTags_script env client yfs s = createTags_main tenant api_key client yfs s"
    by (simp add: createTags_script_def Let_def py_not_def)
  show "hd (fst (createTags_script env client yfs s)) = Client_init tenant api_key"
    unfolding m
    by (simp add: createTags_main_def split: prod.splits sum.splits)
next
  show "cm_generator_main env client jfs s path = cm_generator_main Map.empty client jfs s path"
    by (simp add: cm_generator_main_def)
next
  show "options_generator_main env client efs s path
       = options_generator_main Map.empty client efs s path"
    by (simp add: options_generator_main_def)
next
  fix data
  assume "jfs path = Json data"
  then show "take 2 (fst (cm_generator_main env client jfs s path))
           = [File_open path, Client_init [] []]"
    by (simp add: cm_generator_main_def load_json_from_file_def
        split: prod.splits option.splits)
next
  fix data
  assume "efs path = Json data"
  then show "take 2 (fst (options_generator_main env client efs s path))
           = [File_open path, Client_init [] []]"
    by (simp add: options_generator_main_def load_json_from_file_def
        split: prod.splits option.splits)
qed

theorem environment_check_witness:
  "key_only_env ''ATLAN_TENANT'' = None
   \<and> createTags_script key_only_env catalog_sdk example_yaml [] =
       ([], Raised (ValueError
              ''Please set ATLAN_API_KEY and ATLAN_TENANT environment variables''), [])
   \<and> example_env ''ATLAN_API_KEY'' = Some ''key''
   \<and> example_env ''ATLAN_TENANT'' = Some ''https://tenant''
   \<and> hd (fst (createTags_script example_env catalog_sdk example_yaml []))
       = Client_init ''https://tenant'' ''key''
   \<and> single_json ''metadata.json'' = Json [example_item]
   \<and> take 2 (fst (cm_generator_main Map.empty catalog_sdk single_json [] ''metadata.json''))
       = [File_open ''metadata.json'', Client_init [] []]"
proof -
  have t: "key_only_env ''ATLAN_TENANT'' = None" by (simp add: key_only_env_def)
  then have n: "py_not (key_only_env ''ATLAN_API_KEY'') \<or> py_not (key_only_env ''ATLAN_TENANT'')"
    by (simp add: py_not_def)
  have 1: "createTags_script key_only_env catalog_sdk example_yaml [] =
       ([], Raised (ValueError
              ''Please set ATLAN_API_KEY and ATLAN_TENANT environment variables''), [])"
    using environment_check [of key_only_env catalog_sdk example_yaml "[]"] n by blast
  have k: "example_env ''ATLAN_API_KEY'' = Some ''key''"
    and u: "example_env ''ATLAN_TENANT'' = Some ''https://tenant''"
    by (simp_all add: example_env_def)
  have "''key'' \<noteq> []" and "''https://tenant'' \<noteq> []" by simp_all
  with k u have 2: "hd (fst (createTags_script example_env catalog_sdk example_yaml []))
       = Client_init ''https://tenant'' ''key''"
    using environment_check [of example_env catalog_sdk example_yaml "[]"] by blast
  have j: "single_json ''metadata.json'' = Json [example_item]" by (simp add: single_json_def)
  then have 3: "take 2 (fst (cm_generator_main Map.empty catalog_sdk single_json [] ''metadata.json''))
       = [File_open ''metadata.json'', Client_init [] []]"
    using environment_check [of Map.empty catalog_sdk _ "[]" single_json "''metadata.json''"]
    by blast
  from t 1 k u 2 j 3 show ?thesis by blast
qed

end
